theory Spec2Isabelle
  imports Complex_Main "HOL-Library.Word" "HOL-Library.Sublist"
begin

text \<open>
  A model of the admissions questionnaire: the onboarding form and the application state
  of App.tsx, the report view, and the two requests to the generative model with the
  handling of their responses in services/geminiService.ts.

  Values have the types that types.ts declares; the parsed response of the analysis is
  a JSON value, which the source casts to its type unchecked. What the environment decides is an
  argument of the function it enters: the outcome of a model call, of reading a file and
  of the geolocation request, and the builtins \<open>JSON.parse\<close> and \<open>Number::toString\<close>.
  An asynchronous handler is the sequence of its stretches between two \<open>await\<close>s; it
  yields the successive states and the effects (alerts, model requests).
\<close>

section \<open>JavaScript strings\<close>

text \<open>
  A JavaScript string is a sequence of UTF-16 code units. String literals of the source
  that are plain ASCII are written with \<open>ascii\<close>; Korean text is written as
  its code units.
\<close>

type_synonym codeunit = "16 word"
type_synonym jsstring = "codeunit list"

definition ascii :: "string \<Rightarrow> jsstring" where
  "ascii s = map of_char s"

text \<open>
  \<^verbatim>\<open>String.prototype.trim\<close> removes the ECMAScript WhiteSpace and LineTerminator
  code points from both ends: TAB, LF, VT, FF, CR, SP, NBSP, U+1680, U+2000..U+200A,
  U+2028, U+2029, U+202F, U+205F, U+3000 and U+FEFF. All of them are single code units.
\<close>

definition isWhiteSpace :: "codeunit \<Rightarrow> bool" where
  "isWhiteSpace c \<longleftrightarrow>
     List.member [0x9, 0xA, 0xB, 0xC, 0xD, 0x20, 0xA0, 0x1680, 0x2028, 0x2029,
                  0x202F, 0x205F, 0x3000, 0xFEFF] c
     \<or> (0x2000 \<le> c \<and> c \<le> 0x200A)"

definition trim :: "jsstring \<Rightarrow> jsstring" where
  "trim s = rev (dropWhile isWhiteSpace (rev (dropWhile isWhiteSpace s)))"

text \<open>A string is blank when \<open>s.trim() !== ''\<close> is false.\<close>

definition nonBlank :: "jsstring \<Rightarrow> bool" where
  "nonBlank s \<longleftrightarrow> trim s \<noteq> []"

section \<open>Data model (types.ts)\<close>

text \<open>\<open>grade: '1' | '2' | '3' | ''\<close>\<close>

datatype Grade = Grade1 | Grade2 | Grade3 | GradeEmpty

record MockExam =
  korean :: jsstring
  math :: jsstring
  english :: jsstring
  inquiry1 :: jsstring
  inquiry2 :: jsstring

record ManualAcademicRecord =
  awards :: jsstring
  creativeActivities :: jsstring
  detailedAbilities :: jsstring
  readingActivities :: jsstring
  behavioralCharacteristics :: jsstring

text \<open>\<open>{ mimeType, data }\<close>; \<open>imageData\<close> is the base64 \<open>data\<close>.\<close>

record ImagePayload =
  mimeType :: jsstring
  imageData :: jsstring

text \<open>
  The optional members of \<open>StudentInfo\<close> are options. \<open>studentName\<close> is not in the
  interface, but the onboarding form stores it and the prompt builder reads it.
\<close>

record StudentInfo =
  grade :: Grade
  desiredField :: jsstring
  studentName :: "jsstring option"
  academicRecord :: "jsstring option"
  academicRecordImage :: "ImagePayload option"
  manualAcademicRecord :: "ManualAcademicRecord option"
  mockExam :: MockExam

text \<open>\<open>Object.values\<close> of the two five-field objects, in property order.\<close>

definition mockExamValues :: "MockExam \<Rightarrow> jsstring list" where
  "mockExamValues m = [korean m, math m, english m, inquiry1 m, inquiry2 m]"

definition manualRecordValues :: "ManualAcademicRecord \<Rightarrow> jsstring list" where
  "manualRecordValues r =
     [awards r, creativeActivities r, detailedAbilities r, readingActivities r,
      behavioralCharacteristics r]"

section \<open>The onboarding form (App.tsx, Onboarding)\<close>

datatype RecordInputType = InputImage | InputManual

record Onboarding =
  step :: int
  info :: StudentInfo
  recordInputType :: "RecordInputType option"
  imagePreview :: "jsstring option"
  isExtracting :: bool

text \<open>
  \<open>isStepComplete\<close>: a \<open>switch\<close> on the step number. The \<open>typeof\<close> tests of the
  source hold for every value of the record types above.
\<close>

definition isStepComplete :: "Onboarding \<Rightarrow> bool" where
  "isStepComplete s =
     (if step s = 1 then
        grade (info s) \<noteq> GradeEmpty \<and> trim (desiredField (info s)) \<noteq> []
      else if step s = 2 then
        (case manualAcademicRecord (info s) of
           None \<Rightarrow> False
         | Some record \<Rightarrow> list_ex (\<lambda>v. trim v \<noteq> []) (manualRecordValues record))
      else if step s = 3 then
        list_all (\<lambda>score. trim score \<noteq> []) (mockExamValues (mockExam (info s)))
      else False)"

text \<open>
  The completion predicate as the specification words it: every required field is a
  non-empty string; for the record step, at least one manual-record field is. A step
  other than 1, 2 and 3 has no required field.
\<close>

definition specStepComplete :: "Onboarding \<Rightarrow> bool" where
  "specStepComplete s =
     (if step s = 2 then
        (case manualAcademicRecord (info s) of
           None \<Rightarrow> False
         | Some r \<Rightarrow> list_ex (\<lambda>v. v \<noteq> []) (manualRecordValues r))
      else if step s = 1 then
        grade (info s) \<noteq> GradeEmpty \<and> desiredField (info s) \<noteq> []
      else if step s = 3 then
        list_all (\<lambda>v. v \<noteq> []) (mockExamValues (mockExam (info s)))
      else True)"

definition emptyMockExam :: MockExam where
  "emptyMockExam = \<lparr>korean = [], math = [], english = [], inquiry1 = [], inquiry2 = []\<rparr>"

definition emptyManualRecord :: ManualAcademicRecord where
  "emptyManualRecord =
     \<lparr>awards = [], creativeActivities = [], detailedAbilities = [],
      readingActivities = [], behavioralCharacteristics = []\<rparr>"

text \<open>The initial form state of \<open>Onboarding\<close>.\<close>

definition initialInfo :: StudentInfo where
  "initialInfo =
     \<lparr>grade = GradeEmpty, desiredField = [], studentName = Some [],
      academicRecord = None, academicRecordImage = None, manualAcademicRecord = None,
      mockExam = emptyMockExam\<rparr>"

definition initialOnboarding :: Onboarding where
  "initialOnboarding =
     \<lparr>step = 1, info = initialInfo, recordInputType = None, imagePreview = None,
      isExtracting = False\<rparr>"

section \<open>The AI gateway (services/geminiService.ts)\<close>

text \<open>
  A JavaScript number is modelled by the exact rational value of a finite double.
  \<open>Number::toString\<close>, which template literals apply to a number, prints the shortest
  decimal that reads back as the same double; it depends on the binary representation
  and is a parameter \<open>numberToString\<close> of the functions that call it.
\<close>

type_synonym number = rat

record Location =
  latitude :: number
  longitude :: number

text \<open>A part of a request: \<open>{ text }\<close> or \<open>{ inlineData: { mimeType, data } }\<close>.\<close>

datatype Part = TextPart jsstring | InlineData ImagePayload

subsection \<open>The prompt of the image extraction\<close>

definition extractionPrompt :: jsstring where
  "extractionPrompt =
     concat
      [ascii ''\<newline>'',
       ascii ''    You are an expert OCR system specialized in South Korean academic '',
       ascii ''records ('',
       [0xD559, 0xC0DD, 0xC0DD, 0xD65C, 0xAE30, 0xB85D, 0xBD80],
       ascii '', Saenggibu).\<newline>'',
       ascii ''    Analyze the provided image of an academic record and extract the student'',
       [0x27],
       ascii ''s name and the text content for the following key sections:\<newline>'',
       ascii ''    1.  **'',
       [0xC131, 0xBA85],
       ascii '' (Student Name)**\<newline>'',
       ascii ''    2.  **'',
       [0xC218, 0xC0C1, 0xACBD, 0xB825],
       ascii '' (Awards)**\<newline>'',
       ascii ''    3.  **'',
       [0xCC3D, 0xC758, 0xC801],
       ascii '' '',
       [0xCCB4, 0xD5D8, 0xD65C, 0xB3D9, 0xC0C1, 0xD669],
       ascii '' (Creative Experiential Activities)**: Include details from '',
       [0xC790, 0xC728, 0xD65C, 0xB3D9],
       ascii '', '',
       [0xB3D9, 0xC544, 0xB9AC, 0xD65C, 0xB3D9],
       ascii '', '',
       [0xBD09, 0xC0AC, 0xD65C, 0xB3D9],
       ascii '', and '',
       [0xC9C4, 0xB85C, 0xD65C, 0xB3D9],
       ascii ''.\<newline>'',
       ascii ''    4.  **'',
       [0xC138, 0xBD80, 0xB2A5, 0xB825],
       ascii '' '',
       [0xBC0F],
       ascii '' '',
       [0xD2B9, 0xAE30, 0xC0AC, 0xD56D],
       ascii '' (Detailed Abilities & Special Notes by Subject)**\<newline>'',
       ascii ''    5.  **'',
       [0xB3C5, 0xC11C, 0xD65C, 0xB3D9, 0xC0C1, 0xD669],
       ascii '' (Reading Activities)**\<newline>'',
       ascii ''    6.  **'',
       [0xD589, 0xB3D9, 0xD2B9, 0xC131],
       ascii '' '',
       [0xBC0F],
       ascii '' '',
       [0xC885, 0xD569, 0xC758, 0xACAC],
       ascii '' (Behavioral Characteristics & Comprehensive Opinion)**\<newline>'',
       ascii ''\<newline>'',
       ascii ''    Summarize the content of each section. If a section is not found or '',
       ascii ''is empty, return an empty string for that field. The student'',
       [0x27],
       ascii ''s name must be extracted accurately. If the name is not found, return '',
       [0x22],
       ascii ''OOO'',
       [0x22],
       ascii ''.\<newline>'',
       ascii ''\<newline>'',
       ascii ''    **CRITICAL**: The final output must be a single, valid JSON object '',
       ascii ''that adheres to the provided schema. Do not add any text, markdown formatting, '',
       ascii ''or explanations outside the JSON object.\<newline>'',
       ascii ''  '']"

subsection \<open>formatManualRecord\<close>

text \<open>\<open>x || 'N/A'\<close>: the empty string is the only falsy string.\<close>

definition orNA :: "jsstring \<Rightarrow> jsstring" where
  "orNA x = (if x = [] then ascii ''N/A'' else x)"

definition formatManualRecord :: "ManualAcademicRecord \<Rightarrow> jsstring" where
  "formatManualRecord record =
     concat
      [ascii ''\<newline>'',
       ascii ''- **Academic Record (User-Verified Text)**: This is the primary source '',
       ascii ''for qualitative analysis.\<newline>'',
       ascii ''  - **Awards**: '',
       orNA (awards record),
       ascii ''\<newline>'',
       ascii ''  - **Creative Experiential Activities**: '',
       orNA (creativeActivities record),
       ascii ''\<newline>'',
       ascii ''  - **Detailed Abilities & Special Notes by Subject**: '',
       orNA (detailedAbilities record),
       ascii ''\<newline>'',
       ascii ''  - **Reading Activities**: '',
       orNA (readingActivities record),
       ascii ''\<newline>'',
       ascii ''  - **Behavioral Characteristics & Comprehensive Opinion**: '',
       orNA (behavioralCharacteristics record),
       ascii ''\<newline>'']"

subsection \<open>getAnalysisPrompt\<close>

definition locationInfo :: "(number \<Rightarrow> jsstring) \<Rightarrow> Location option \<Rightarrow> jsstring" where
  "locationInfo numberToString location =
     (case location of
        Some l \<Rightarrow>
          concat
           [ascii ''The user is located at latitude '',
            numberToString (latitude l),
            ascii '' and longitude '',
            numberToString (longitude l),
            ascii ''.'']
      | None \<Rightarrow> ascii ''The user has not provided their location.'')"

text \<open>
  \<open>hasManualRecord\<close>: the manual record exists and \<open>Object.values\<close> of it has a
  string that is not blank.
\<close>

definition hasManualRecord :: "StudentInfo \<Rightarrow> bool" where
  "hasManualRecord studentInfo =
     (case manualAcademicRecord studentInfo of
        None \<Rightarrow> False
      | Some record \<Rightarrow> list_ex (\<lambda>v. trim v \<noteq> []) (manualRecordValues record))"

definition imageInstruction :: jsstring where
  "imageInstruction =
     ascii ''The academic record ('' @ [0xC0DD, 0xAE30, 0xBD80] @
     ascii '') is provided as an attached image. Please perform OCR and analyze its content.''"

definition pastedRecord :: "jsstring \<Rightarrow> jsstring" where
  "pastedRecord academicRecordText =
     concat
      [ascii ''- **Academic Record (Pasted Text)**:\<newline>'',
       ascii ''---\<newline>'',
       academicRecordText,
       ascii ''\<newline>'',
       ascii ''---'']"

definition noRecordNotice :: jsstring where
  "noRecordNotice =
     ascii ''No academic record was provided. Please make a general analysis based on '' @
     ascii ''the mock exam scores and desired field.''"

text \<open>
  The \<open>if\<close> chain that chooses the record source. It yields \<open>academicRecordInfo\<close> and
  the parts pushed so far. Inside the first branch the record is known to exist (the
  \<open>!\<close> of the source); a pasted text counts when it is a non-empty string.
\<close>

definition academicRecordSource :: "StudentInfo \<Rightarrow> jsstring \<times> Part list" where
  "academicRecordSource studentInfo =
     (if hasManualRecord studentInfo then
        (case manualAcademicRecord studentInfo of
           Some record \<Rightarrow> (formatManualRecord record, [])
         | None \<Rightarrow> ([], []))
      else
        (case academicRecordImage studentInfo of
           Some img \<Rightarrow> (imageInstruction, [InlineData img])
         | None \<Rightarrow>
             (case academicRecord studentInfo of
                Some t \<Rightarrow> if t \<noteq> [] then (pastedRecord t, []) else (noRecordNotice, [])
              | None \<Rightarrow> (noRecordNotice, []))))"

definition mockExamScoresProvided :: "MockExam \<Rightarrow> bool" where
  "mockExamScoresProvided m = list_ex (\<lambda>score. trim score \<noteq> []) (mockExamValues m)"

definition mockExamInfo :: "MockExam \<Rightarrow> jsstring" where
  "mockExamInfo m =
     (if mockExamScoresProvided m then
        concat
         [ascii ''- Mock Exam Scores (percentile): Korean '',
          korean m,
          ascii '', Math '',
          math m,
          ascii '', English '',
          english m,
          ascii '', Inquiry1 '',
          inquiry1 m,
          ascii '', Inquiry2 '',
          inquiry2 m]
      else
        ascii ''- Mock Exam Scores: The user skipped this step. Please estimate the student'' @
        [0x27] @
        ascii ''s academic performance for the regular decision ('' @
        [0xC815, 0xC2DC] @
        ascii '') analysis based on the provided academic record ('' @
        [0xD559, 0xC0DD] @
        ascii '' '' @
        [0xC0DD, 0xD65C, 0xAE30, 0xB85D, 0xBD80] @
        ascii '') content.'')"

definition studentNameInfo :: "StudentInfo \<Rightarrow> jsstring" where
  "studentNameInfo studentInfo =
     (if studentName studentInfo \<noteq> None \<and> studentName studentInfo \<noteq> Some [] then
        concat
         [ascii ''The student'',
          [0x27],
          ascii ''s name is '',
          the (studentName studentInfo),
          ascii ''. Use this exact name in the report.'']
      else
        ascii ''Anonymize the student'' @
        [0x27] @
        ascii ''s name to '' @
        [0x22] @
        ascii ''OOO '' @
        [0xD559, 0xC0DD, 0x22] @
        ascii ''.'')"

definition gradeText :: "Grade \<Rightarrow> jsstring" where
  "gradeText g =
     (case g of Grade1 \<Rightarrow> ascii ''1'' | Grade2 \<Rightarrow> ascii ''2'' | Grade3 \<Rightarrow> ascii ''3''
      | GradeEmpty \<Rightarrow> [])"

text \<open>The fixed text of the prompt template, between its interpolations.\<close>

definition promptHead :: jsstring where
  "promptHead =
     concat
      [ascii ''\<newline>'',
       ascii ''    You are an expert South Korean college admissions consultant AI named '',
       [0x27, 0xC785, 0xC2DC],
       ascii '' '',
       [0xB124, 0xBE44, 0xAC8C, 0xC774, 0xD130, 0x27],
       ascii ''. Your role is to provide a detailed, data-driven analysis for a parent '',
       ascii ''about their high school student'',
       [0x27],
       ascii ''s university admission prospects.\<newline>'',
       ascii ''\<newline>'',
       ascii ''    **Student Data:**\<newline>'',
       ascii ''    - Grade: '']"

definition promptTask :: jsstring where
  "promptTask =
     concat
      [ascii ''\<newline>'',
       ascii ''\<newline>'',
       ascii ''    **Your Task:**\<newline>'',
       ascii ''    Analyze all the provided information and generate a comprehensive '',
       ascii ''report. The report must be in Korean.\<newline>'',
       ascii ''\<newline>'',
       ascii ''    1.  **Student Identification**: '']"

definition promptTail :: jsstring where
  "promptTail =
     concat
      [ascii ''\<newline>'',
       ascii ''    2.  **Quantitative Analysis**:\<newline>'',
       ascii ''        - Create a grade trend chart data for 4 semesters. Estimate GPA '',
       ascii ''based on the text.\<newline>'',
       ascii ''        - Analyze mock exam scores, highlighting strengths and weaknesses. '',
       ascii ''If scores are not provided, estimate performance based on the academic '',
       ascii ''record.\<newline>'',
       ascii ''        - Generate Z-scores for 5 key subjects based on the academic record.\<newline>'',
       ascii ''    3.  **Qualitative Analysis**:\<newline>'',
       ascii ''        - Extract at least 10-15 relevant keywords from the academic record '',
       ascii ''for a keyword cloud, weighted by importance for the desired field.\<newline>'',
       ascii ''        - Create a radar chart data for the 4 key competencies ('',
       [0xD559, 0xC5C5, 0xC5ED, 0xB7C9],
       ascii '', '',
       [0xC804, 0xACF5, 0xC801, 0xD569, 0xC131],
       ascii '', '',
       [0xC778, 0xC131],
       ascii '', '',
       [0xBC1C, 0xC804, 0xAC00, 0xB2A5, 0xC131],
       ascii '') on a scale of 5.\<newline>'',
       ascii ''    4.  **Application Strategy**:\<newline>'',
       ascii ''        - Calculate the probability of success for Early Decision ('',
       [0xC218, 0xC2DC],
       ascii '') vs. Regular Decision ('',
       [0xC815, 0xC2DC],
       ascii '').\<newline>'',
       ascii ''        - Recommend the most advantageous application type.\<newline>'',
       ascii ''    5.  **University Recommendations**:\<newline>'',
       ascii ''        - Recommend 6 Early Decision ('',
       [0xC218, 0xC2DC],
       ascii '') options categorized as '',
       [0x27, 0xC0C1, 0xD5A5, 0x27],
       ascii '', '',
       [0x27, 0xC801, 0xC815, 0x27],
       ascii '', '',
       [0x27, 0xC548, 0xC815, 0x27],
       ascii ''.\<newline>'',
       ascii ''        - Recommend 3 Regular Decision ('',
       [0xC815, 0xC2DC],
       ascii '') options categorized similarly.\<newline>'',
       ascii ''        - For each recommendation, provide the university, major, admission '',
       ascii ''type, chance of acceptance (%), and a brief rationale.\<newline>'',
       ascii ''    6.  **Local Support (LBS)**:\<newline>'',
       ascii ''        - Identify the student'',
       [0x27],
       ascii ''s weakest subject.\<newline>'',
       ascii ''        - Based on the user'',
       [0x27],
       ascii ''s location, recommend 3 nearby specialized academies and 2 study spaces '',
       ascii ''(libraries or study cafes). '',
       ascii ''If location is not available, provide general advice.'',
       ascii '' Include realistic names, distances, ratings, and review counts.\<newline>'',
       ascii ''\<newline>'',
       ascii ''    **CRITICAL**: The final output must be a single, valid JSON object '',
       ascii ''only. Do not add any text, markdown formatting like '',
       [0x60, 0x60, 0x60],
       ascii ''json, or any explanations outside the JSON object itself.\<newline>'',
       ascii ''  '']"

definition promptText ::
  "StudentInfo \<Rightarrow> jsstring \<Rightarrow> jsstring \<Rightarrow> jsstring \<Rightarrow> jsstring" where
  "promptText studentInfo mockExamInfo' academicRecordInfo locationInfo' =
     concat
      [promptHead,
       gradeText (grade studentInfo),
       [0xD559, 0xB144],
       ascii ''\<newline>'',
       ascii ''    - Desired Field of Study: '',
       desiredField studentInfo,
       ascii ''\<newline>'',
       ascii ''    '',
       mockExamInfo',
       ascii ''\<newline>'',
       ascii ''    '',
       academicRecordInfo,
       ascii ''\<newline>'',
       ascii ''\<newline>'',
       ascii ''    **User Location:**\<newline>'',
       ascii ''    '',
       locationInfo',
       promptTask,
       studentNameInfo studentInfo,
       promptTail]"

text \<open>
  \<open>getAnalysisPrompt\<close> returns \<open>{ parts }\<close>: the parts of the record source, with the
  text part put in front (\<open>parts.unshift\<close>).
\<close>

definition getAnalysisPrompt ::
  "(number \<Rightarrow> jsstring) \<Rightarrow> StudentInfo \<Rightarrow> Location option \<Rightarrow> Part list" where
  "getAnalysisPrompt numberToString studentInfo location =
     (case academicRecordSource studentInfo of
        (academicRecordInfo, parts) \<Rightarrow>
          TextPart
            (promptText studentInfo (mockExamInfo (mockExam studentInfo)) academicRecordInfo
               (locationInfo numberToString location))
          # parts)"

subsection \<open>Requests to the model\<close>

text \<open>
  A response schema: \<open>{ type, description?, items?, properties?, required? }\<close>. An
  object schema lists its properties in order and the names of the required ones.
\<close>

datatype Schema =
    StringType
  | StringTypeDesc jsstring
  | NumberType
  | BooleanType
  | ArrayType Schema
  | ObjectType "(string \<times> Schema) list" "string list"

text \<open>The argument of \<open>ai.models.generateContent\<close>.\<close>

record GenerateContentRequest =
  model :: string
  parts :: "Part list"
  responseMimeType :: string
  responseSchema :: Schema

definition extractionSchema :: Schema where
  "extractionSchema =
     ObjectType
       [(''studentName'', StringTypeDesc [0xD559, 0xC0DD, 0x20, 0xC131, 0xBA85]),
        (''awards'', StringTypeDesc [0xC218, 0xC0C1, 0xACBD, 0xB825]),
        (''creativeActivities'',
           StringTypeDesc
             [0xCC3D, 0xC758, 0xC801, 0x20, 0xCCB4, 0xD5D8, 0xD65C, 0xB3D9, 0xC0C1, 0xD669]),
        (''detailedAbilities'',
           StringTypeDesc
             [0xC138, 0xBD80, 0xB2A5, 0xB825, 0x20, 0xBC0F, 0x20, 0xD2B9, 0xAE30, 0xC0AC, 0xD56D]),
        (''readingActivities'', StringTypeDesc [0xB3C5, 0xC11C, 0xD65C, 0xB3D9, 0xC0C1, 0xD669]),
        (''behavioralCharacteristics'',
           StringTypeDesc
             [0xD589, 0xB3D9, 0xD2B9, 0xC131, 0x20, 0xBC0F, 0x20, 0xC885, 0xD569, 0xC758, 0xACAC])]
       [''studentName'', ''awards'', ''creativeActivities'', ''detailedAbilities'',
        ''readingActivities'', ''behavioralCharacteristics'']"

text \<open>\<open>extractDataFromImage\<close> sends the image part, then the text part.\<close>

definition extractionRequest :: "ImagePayload \<Rightarrow> GenerateContentRequest" where
  "extractionRequest academicRecordImage' =
     \<lparr>model = ''gemini-2.5-flash'',
      parts = [InlineData academicRecordImage', TextPart extractionPrompt],
      responseMimeType = ''application/json'',
      responseSchema = extractionSchema\<rparr>"

definition analysisSchema :: Schema where
  "analysisSchema =
     ObjectType
      [(''studentName'', StringType),
       (''recommendedApplicationType'', StringType),
       (''quantitativeAnalysis'',
          (ObjectType
            [(''gpaZScore'',
              (ArrayType
                (ObjectType
                  [(''subject'', StringType),
                   (''zScore'', NumberType)]
                  [''subject'', ''zScore'']))),
             (''gradeTrend'',
              (ArrayType
                (ObjectType
                  [(''semester'', StringType),
                   (''gpa'', NumberType)]
                  [''semester'', ''gpa'']))),
             (''mockExamAnalysis'',
              (ArrayType
                (ObjectType
                  [(''subject'', StringType),
                   (''strength'', BooleanType),
                   (''comment'', StringType)]
                  [''subject'', ''strength'', ''comment''])))]
            [''gpaZScore'', ''gradeTrend'', ''mockExamAnalysis''])),
       (''qualitativeAnalysis'',
          (ObjectType
            [(''keywordCloud'',
              (ArrayType
                (ObjectType
                  [(''text'', StringType),
                   (''value'', NumberType)]
                  [''text'', ''value'']))),
             (''competencyRadar'',
              (ArrayType
                (ObjectType
                  [(''subject'', StringType),
                   (''score'', NumberType),
                   (''fullMark'', NumberType)]
                  [''subject'', ''score'', ''fullMark''])))]
            [''keywordCloud'', ''competencyRadar''])),
       (''applicationStrategy'',
          (ObjectType
            [(''earlyDecisionProbability'', NumberType),
             (''regularDecisionProbability'', NumberType)]
            [''earlyDecisionProbability'', ''regularDecisionProbability''])),
       (''earlyDecisionRecommendations'',
          (ArrayType
            (ObjectType
              [(''category'', StringType),
               (''university'', StringType),
               (''major'', StringType),
               (''admissionType'', StringType),
               (''acceptanceChance'', NumberType),
               (''rationale'', StringType)]
              [''category'', ''university'', ''major'', ''admissionType'', ''acceptanceChance'',
               ''rationale'']))),
       (''regularDecisionRecommendations'',
          (ArrayType
            (ObjectType
              [(''category'', StringType),
               (''university'', StringType),
               (''major'', StringType),
               (''admissionType'', StringType),
               (''acceptanceChance'', NumberType),
               (''rationale'', StringType)]
              [''category'', ''university'', ''major'', ''admissionType'', ''acceptanceChance'',
               ''rationale'']))),
       (''localSupport'',
          (ObjectType
            [(''weakSubject'', StringType),
             (''recommendedAcademies'',
              (ArrayType
                (ObjectType
                  [(''name'', StringType),
                   (''distance'', StringType),
                   (''rating'', NumberType),
                   (''reviewCount'', NumberType)]
                  [''name'', ''distance'', ''rating'', ''reviewCount'']))),
             (''recommendedStudySpaces'',
              (ArrayType
                (ObjectType
                  [(''name'', StringType),
                   (''type'', StringType),
                   (''distance'', StringType),
                   (''rating'', NumberType)]
                  [''name'', ''type'', ''distance'', ''rating''])))]
            [''weakSubject'', ''recommendedAcademies'', ''recommendedStudySpaces'']))]
      [''studentName'', ''recommendedApplicationType'', ''quantitativeAnalysis'',
       ''qualitativeAnalysis'', ''applicationStrategy'', ''earlyDecisionRecommendations'',
       ''regularDecisionRecommendations'', ''localSupport'']"

text \<open>\<open>analyzeStudentData\<close> sends the parts of \<open>getAnalysisPrompt\<close>.\<close>

definition analysisRequest ::
  "(number \<Rightarrow> jsstring) \<Rightarrow> StudentInfo \<Rightarrow> Location option \<Rightarrow> GenerateContentRequest" where
  "analysisRequest numberToString studentInfo location =
     \<lparr>model = ''gemini-2.5-flash'',
      parts = getAnalysisPrompt numberToString studentInfo location,
      responseMimeType = ''application/json'',
      responseSchema = analysisSchema\<rparr>"

section \<open>The report (types.ts, AnalysisReport)\<close>

text \<open>
  The records of \<open>AnalysisReport\<close>. Field names that several of the source's object
  types share (\<open>subject\<close>, \<open>name\<close>, \<open>distance\<close>, \<open>rating\<close>, \<open>text\<close>, \<open>value\<close>,
  \<open>type\<close>) get a prefix here. \<open>category\<close> and the study space's \<open>type\<close> are
  strings, as the response schema declares them and as the \<open>default\<close> and \<open>else\<close>
  branches of the view allow.
\<close>

record GpaZScore =
  gpaSubject :: jsstring
  zScore :: number

record GradeTrend =
  semester :: jsstring
  gpa :: number

record MockExamAnalysis =
  examSubject :: jsstring
  strength :: bool
  examComment :: jsstring

record QuantitativeAnalysis =
  gpaZScore :: "GpaZScore list"
  gradeTrend :: "GradeTrend list"
  mockExamAnalysis :: "MockExamAnalysis list"

record Keyword =
  keywordText :: jsstring
  keywordValue :: number

record Competency =
  radarSubject :: jsstring
  score :: number
  fullMark :: number

record QualitativeAnalysis =
  keywordCloud :: "Keyword list"
  competencyRadar :: "Competency list"

record ApplicationStrategy =
  earlyDecisionProbability :: number
  regularDecisionProbability :: number

record UniversityRecommendation =
  category :: jsstring
  university :: jsstring
  major :: jsstring
  admissionType :: jsstring
  acceptanceChance :: number
  rationale :: jsstring

record Academy =
  academyName :: jsstring
  academyDistance :: jsstring
  academyRating :: number
  reviewCount :: number

record StudySpace =
  spaceName :: jsstring
  spaceType :: jsstring
  spaceDistance :: jsstring
  spaceRating :: number

record LocalSupport =
  weakSubject :: jsstring
  recommendedAcademies :: "Academy list"
  recommendedStudySpaces :: "StudySpace list"

record AnalysisReport =
  reportStudentName :: jsstring
  recommendedApplicationType :: jsstring
  quantitativeAnalysis :: QuantitativeAnalysis
  qualitativeAnalysis :: QualitativeAnalysis
  applicationStrategy :: ApplicationStrategy
  earlyDecisionRecommendations :: "UniversityRecommendation list"
  regularDecisionRecommendations :: "UniversityRecommendation list"
  localSupport :: LocalSupport

section \<open>Responses of the model\<close>

text \<open>
  A call of \<open>generateContent\<close> throws, or returns a response whose \<open>text\<close> is a
  string or undefined.
\<close>

datatype ModelOutcome = CallFailed | Response "jsstring option"

text \<open>
  A value that \<open>JSON.parse\<close> returns. An object holds its properties in order, each
  key once.
\<close>

datatype json =
    JNull
  | JBool bool
  | JNumber number
  | JString jsstring
  | JArray "json list"
  | JObject "(jsstring \<times> json) list"

text \<open>Whether such a value is truthy in a condition.\<close>

fun truthy :: "json \<Rightarrow> bool" where
  "truthy JNull = False"
| "truthy (JBool b) = b"
| "truthy (JNumber n) = (n \<noteq> 0)"
| "truthy (JString s) = (s \<noteq> [])"
| "truthy (JArray xs) = True"
| "truthy (JObject ps) = True"

text \<open>
  The specification's "matches the declared schema": a string, number or boolean schema
  is matched by a value of that kind, an array schema by an array of matching items, an
  object schema by an object that has every required property and whose declared
  properties, where present, match. The source has no such check.
\<close>

fun matchesSchema :: "Schema \<Rightarrow> json \<Rightarrow> bool" where
  "matchesSchema StringType j = (case j of JString s \<Rightarrow> True | _ \<Rightarrow> False)"
| "matchesSchema (StringTypeDesc d) j = (case j of JString s \<Rightarrow> True | _ \<Rightarrow> False)"
| "matchesSchema NumberType j = (case j of JNumber n \<Rightarrow> True | _ \<Rightarrow> False)"
| "matchesSchema BooleanType j = (case j of JBool b \<Rightarrow> True | _ \<Rightarrow> False)"
| "matchesSchema (ArrayType item) j =
     (case j of JArray xs \<Rightarrow> list_all (matchesSchema item) xs | _ \<Rightarrow> False)"
| "matchesSchema (ObjectType props req) j =
     (case j of
        JObject members \<Rightarrow>
          list_all (\<lambda>name. map_of members (ascii name) \<noteq> None) req \<and>
          list_all
            (\<lambda>p.
               case map_of members (ascii (fst p)) of
                 None \<Rightarrow> True
               | Some v \<Rightarrow> matchesSchema (snd p) v)
            props
      | _ \<Rightarrow> False)"

text \<open>
  \<open>JSON.parse\<close> is a parameter \<open>jsonParse\<close> of the functions that call it: it yields
  the parsed value and \<open>None\<close> when it throws a SyntaxError. \<open>analyzeStudentData\<close>
  returns the parsed value as it is: \<open>as AnalysisReport\<close> is a cast that checks nothing.
  In \<open>extractDataFromImage\<close> the parameter stands for \<open>JSON.parse\<close> and the
  destructuring of a value that has the shape of the extraction schema.
\<close>

definition jsonFenceOpen :: jsstring where
  "jsonFenceOpen = [0x60, 0x60, 0x60] @ ascii ''json\<newline>''"

definition jsonFenceClose :: jsstring where
  "jsonFenceClose = ascii ''\<newline>'' @ [0x60, 0x60, 0x60]"

text \<open>
  \<open>.replace(/^```json\n/, '')\<close>: without the \<open>m\<close> flag \<open>^\<close> matches at the start of
  the text only, so the one possible match is a prefix.
\<close>

definition stripLeadingFence :: "jsstring \<Rightarrow> jsstring" where
  "stripLeadingFence s =
     (if prefix jsonFenceOpen s then drop (length jsonFenceOpen) s else s)"

text \<open>
  \<open>.replace(/\n```$/, '')\<close>: \<open>$\<close> matches at the end of the text only and the
  pattern has a fixed length, so the one possible match is a suffix.
\<close>

definition stripTrailingFence :: "jsstring \<Rightarrow> jsstring" where
  "stripTrailingFence s =
     (if suffix jsonFenceClose s then take (length s - length jsonFenceClose) s else s)"

definition cleanResponseText :: "jsstring \<Rightarrow> jsstring" where
  "cleanResponseText t = trim (stripTrailingFence (stripLeadingFence t))"

definition analysisFailure :: jsstring where
  "analysisFailure =
     ascii ''Failed to get analysis from AI. Please check the console for details.''"

text \<open>
  \<open>analyzeStudentData\<close> after its request (\<open>analysisRequest\<close>): everything from the
  call to the parse is inside one \<open>try\<close>, and every exception becomes the same Error.
  \<open>Inl\<close> is the message of the Error thrown. An undefined \<open>response.text\<close> makes
  \<open>.replace\<close> throw. Calls of \<open>console.error\<close> are left out of the model.
\<close>

definition analyzeStudentData :: "(jsstring \<Rightarrow> 'r option) \<Rightarrow> ModelOutcome \<Rightarrow> jsstring + 'r" where
  "analyzeStudentData jsonParse outcome =
     (case outcome of
        CallFailed \<Rightarrow> Inl analysisFailure
      | Response None \<Rightarrow> Inl analysisFailure
      | Response (Some t) \<Rightarrow>
          (case jsonParse (cleanResponseText t) of
             None \<Rightarrow> Inl analysisFailure
           | Some report \<Rightarrow> Inr report))"

definition extractionFailure :: jsstring where
  "extractionFailure =
     ascii ''Failed to extract data from the image. Please try again or enter the data manually.''"

text \<open>
  \<open>extractDataFromImage\<close> after its request (\<open>extractionRequest\<close>). Here \<open>jsonParse\<close>
  stands for \<open>JSON.parse\<close> and the destructuring into the name and the manual record.
\<close>

definition extractDataFromImage ::
  "(jsstring \<Rightarrow> (jsstring \<times> ManualAcademicRecord) option) \<Rightarrow> ModelOutcome \<Rightarrow>
     jsstring + (jsstring \<times> ManualAcademicRecord)" where
  "extractDataFromImage jsonParse outcome =
     (case outcome of
        CallFailed \<Rightarrow> Inl extractionFailure
      | Response None \<Rightarrow> Inl extractionFailure
      | Response (Some t) \<Rightarrow>
          (case jsonParse (trim t) of
             None \<Rightarrow> Inl extractionFailure
           | Some extracted \<Rightarrow> Inr extracted))"

section \<open>Effects\<close>

text \<open>What a handler does besides updating the state.\<close>

datatype Effect = Alert jsstring | GenerateContent GenerateContentRequest

section \<open>The onboarding form: image upload (App.tsx, handleFileChange)\<close>

text \<open>
  \<open>handleFileChange\<close> runs in three stretches, each ending at an \<open>await\<close> or at the
  end. The first starts when a file is chosen; \<open>url\<close> is what \<open>URL.createObjectURL\<close>
  returned.
\<close>

definition fileChosen :: "jsstring \<Rightarrow> Onboarding \<Rightarrow> Onboarding" where
  "fileChosen url s =
     s\<lparr>isExtracting := True, recordInputType := Some InputImage, imagePreview := Some url\<rparr>"

text \<open>The second runs when \<open>fileToBase64\<close> has resolved; it calls the model.\<close>

definition fileRead :: "ImagePayload \<Rightarrow> Onboarding \<Rightarrow> Onboarding \<times> Effect list" where
  "fileRead imagePayload s =
     (s\<lparr>info := (info s)\<lparr>academicRecordImage := Some imagePayload\<rparr>\<rparr>,
      [GenerateContent (extractionRequest imagePayload)])"

text \<open>The third is the \<open>try\<close>, \<open>catch\<close> and \<open>finally\<close> around the extraction.\<close>

definition extractionSettled ::
  "jsstring + (jsstring \<times> ManualAcademicRecord) \<Rightarrow> Onboarding \<Rightarrow> Onboarding \<times> Effect list" where
  "extractionSettled result s =
     (case result of
        Inr (name, manualRecord) \<Rightarrow>
          (s\<lparr>info := (info s)\<lparr>studentName := Some name, manualAcademicRecord := Some manualRecord\<rparr>,
             recordInputType := Some InputManual,
             isExtracting := False\<rparr>,
           [])
      | Inl message \<Rightarrow>
          (s\<lparr>recordInputType := Some InputImage, isExtracting := False\<rparr>, [Alert message]))"

text \<open>
  The whole handler, given what the environment answered: the chosen file, if any
  (\<open>e.target.files?.[0]\<close>, here its object URL), the result of reading it (\<open>None\<close>:
  the FileReader failed, and the rejection leaves the handler before its \<open>try\<close>), and
  the outcome of the model call. It yields the successive states and the effects.
\<close>

definition handleFileChange ::
  "(jsstring \<Rightarrow> (jsstring \<times> ManualAcademicRecord) option) \<Rightarrow> jsstring option \<Rightarrow>
     ImagePayload option \<Rightarrow> ModelOutcome \<Rightarrow> Onboarding \<Rightarrow> Onboarding list \<times> Effect list" where
  "handleFileChange jsonParse file payload outcome s =
     (case file of
        None \<Rightarrow> ([], [])
      | Some url \<Rightarrow>
          (let s1 = fileChosen url s in
           case payload of
             None \<Rightarrow> ([s1], [])
           | Some imagePayload \<Rightarrow>
               (case fileRead imagePayload s1 of
                  (s2, fx2) \<Rightarrow>
                    (case extractionSettled (extractDataFromImage jsonParse outcome) s2 of
                       (s3, fx3) \<Rightarrow> ([s1, s2, s3], fx2 @ fx3)))))"

text \<open>\<open>handleManualSelect\<close>\<close>

definition handleManualSelect :: "Onboarding \<Rightarrow> Onboarding" where
  "handleManualSelect s =
     s\<lparr>recordInputType := Some InputManual,
       info := (info s)\<lparr>manualAcademicRecord := Some emptyManualRecord\<rparr>\<rparr>"

text \<open>
  What step 2 of \<open>renderStep\<close> shows: the spinner while extracting; otherwise the two
  choices when no input type is set, the file input for \<open>'image'\<close>, and the five text
  areas, holding the fields of the manual record, for \<open>'manual'\<close> with a record.
\<close>

datatype RecordStepView =
    ExtractingSpinner
  | InputTypeChoice
  | ImageUpload "jsstring option"
  | ManualForm ManualAcademicRecord
  | NoInput

definition renderRecordStep :: "Onboarding \<Rightarrow> RecordStepView" where
  "renderRecordStep s =
     (if isExtracting s then ExtractingSpinner
      else
        (case recordInputType s of
           None \<Rightarrow> InputTypeChoice
         | Some InputImage \<Rightarrow> ImageUpload (imagePreview s)
         | Some InputManual \<Rightarrow>
             (case manualAcademicRecord (info s) of
                Some record \<Rightarrow> ManualForm record
              | None \<Rightarrow> NoInput)))"

section \<open>Korean texts of the user interface\<close>

text \<open>
  The Korean string literals of App.tsx, as UTF-16 code units, each under a name that
  tells its meaning.
\<close>

definition koEarly :: jsstring where
  \<comment> \<open>susi: early decision\<close>
  "koEarly =
     [0xC218, 0xC2DC]"

definition koRegular :: jsstring where
  \<comment> \<open>jeongsi: regular decision\<close>
  "koRegular =
     [0xC815, 0xC2DC]"

definition koReach :: jsstring where
  \<comment> \<open>reach\<close>
  "koReach =
     [0xC0C1, 0xD5A5]"

definition koMatch :: jsstring where
  \<comment> \<open>match\<close>
  "koMatch =
     [0xC801, 0xC815]"

definition koSafe :: jsstring where
  \<comment> \<open>safe\<close>
  "koSafe =
     [0xC548, 0xC815]"

definition koExpectedAcceptanceRate :: jsstring where
  \<comment> \<open>expected acceptance rate\<close>
  "koExpectedAcceptanceRate =
     [0xC608, 0xC0C1, 0x20, 0xD569, 0xACA9, 0xB960]"

definition koDiagnosisSummary :: jsstring where
  \<comment> \<open>summary of the diagnosis\<close>
  "koDiagnosisSummary =
     [0xD575, 0xC2EC, 0x20, 0xC9C4, 0xB2E8, 0x20, 0xC694, 0xC57D]"

definition koStudent :: jsstring where
  \<comment> \<open>student\<close>
  "koStudent =
     [0xD559, 0xC0DD]"

definition koAnalysisResult :: jsstring where
  \<comment> \<open>analysis result\<close>
  "koAnalysisResult =
     [0xBD84, 0xC11D, 0x20, 0xACB0, 0xACFC]"

definition koIsFavourable :: jsstring where
  \<comment> \<open>... is favourable.\<close>
  "koIsFavourable =
     [0xC774, 0x20, 0xC720, 0xB9AC, 0xD569, 0xB2C8, 0xB2E4] @ ascii ''.''"

definition koEarlyVsRegular :: jsstring where
  \<comment> \<open>early vs regular: which is better\<close>
  "koEarlyVsRegular =
     [0xC218, 0xC2DC] @ ascii '' vs '' @ [0xC815, 0xC2DC, 0x20, 0xC720, 0xBD88,
      0xB9AC]"

definition koGradeTrend :: jsstring where
  \<comment> \<open>trend of school grades (GPA)\<close>
  "koGradeTrend =
     [0xB0B4, 0xC2E0, 0x20, 0xC131, 0xC801, 0x20, 0xCD94, 0xC774] @ ascii '' (GPA)''"

definition koCompetencies :: jsstring where
  \<comment> \<open>analysis of the four competencies\<close>
  "koCompetencies =
     ascii ''4'' @ [0xB300, 0x20, 0xC5ED, 0xB7C9, 0x20, 0xBD84, 0xC11D]"

definition koKeywordCloud :: jsstring where
  \<comment> \<open>keyword cloud of the record\<close>
  "koKeywordCloud =
     [0xD559, 0xC0DD, 0xBD80, 0x20, 0xD0A4, 0xC6CC, 0xB4DC, 0x20, 0xD074, 0xB77C,
      0xC6B0, 0xB4DC]"

definition koEarlyCards :: jsstring where
  \<comment> \<open>six recommendations for early decision\<close>
  "koEarlyCards =
     [0xC218, 0xC2DC] @ ascii '' 6'' @ [0xCE74, 0xB4DC, 0x20, 0xCD94, 0xCC9C]"

definition koRegularCards :: jsstring where
  \<comment> \<open>three recommendations for regular decision\<close>
  "koRegularCards =
     [0xC815, 0xC2DC] @ ascii '' 3'' @ [0xCE74, 0xB4DC, 0x20, 0xCD94, 0xCC9C]"

definition koReviews :: jsstring where
  \<comment> \<open>, reviews\<close>
  "koReviews =
     ascii '', '' @ [0xB9AC, 0xBDF0] @ ascii '' ''"

definition koLibrary :: jsstring where
  \<comment> \<open>library\<close>
  "koLibrary =
     [0xB3C4, 0xC11C, 0xAD00]"

definition koStudyCafe :: jsstring where
  \<comment> \<open>study cafe\<close>
  "koStudyCafe =
     [0xC2A4, 0xD130, 0xB514, 0x20, 0xCE74, 0xD398]"

definition koLocalSupportTitle :: jsstring where
  \<comment> \<open>local study support\<close>
  "koLocalSupportTitle =
     [0xC9C0, 0xC5ED, 0x20, 0xAE30, 0xBC18, 0x20, 0xD559, 0xC5C5, 0x20, 0xC9C0,
      0xC6D0, 0x20, 0xC194, 0xB8E8, 0xC158]"

definition koAccordingToAnalysis :: jsstring where
  \<comment> \<open>according to the AI analysis,\<close>
  "koAccordingToAnalysis =
     ascii ''AI '' @ [0xBD84, 0xC11D, 0x20, 0xACB0, 0xACFC] @ ascii '', ''"

definition koStudentTopic :: jsstring where
  \<comment> \<open>the student (topic)\<close>
  "koStudentTopic =
     ascii '' '' @ [0xD559, 0xC0DD, 0xC740] @ ascii '' ''"

definition koNeedsWork :: jsstring where
  \<comment> \<open>urgently needs work.\<close>
  "koNeedsWork =
     ascii '' '' @ [0xBCF4, 0xC644, 0xC774, 0x20, 0xC2DC, 0xAE09, 0xD569, 0xB2C8,
      0xB2E4] @ ascii ''.''"

definition koAcademiesHeading :: jsstring where
  \<comment> \<open>recommended academies for the weak subject\<close>
  "koAcademiesHeading =
     [0xC57D, 0xC810, 0x20, 0xBCF4, 0xC644, 0x20, 0xC804, 0xBB38, 0x20, 0xD559,
      0xC6D0, 0x20, 0xCD94, 0xCC9C]"

definition koStudySpacesHeading :: jsstring where
  \<comment> \<open>recommended study spaces\<close>
  "koStudySpacesHeading =
     [0xD559, 0xC2B5, 0x20, 0xACF5, 0xAC04, 0x20, 0xCD94, 0xCC9C]"

definition koTabDashboard :: jsstring where
  \<comment> \<open>dashboard\<close>
  "koTabDashboard =
     [0xC885, 0xD569, 0x20, 0xB300, 0xC2DC, 0xBCF4, 0xB4DC]"

definition koTabStrategy :: jsstring where
  \<comment> \<open>admission strategy\<close>
  "koTabStrategy =
     [0xB9DE, 0xCDA4, 0x20, 0xD569, 0xACA9, 0x20, 0xC804, 0xB7B5]"

definition koTabLocal :: jsstring where
  \<comment> \<open>local study support\<close>
  "koTabLocal =
     [0xC9C0, 0xC5ED, 0x20, 0xD559, 0xC5C5, 0x20, 0xC9C0, 0xC6D0]"

definition koLocationCollected :: jsstring where
  \<comment> \<open>the location was collected.\<close>
  "koLocationCollected =
     [0xC704, 0xCE58, 0x20, 0xC815, 0xBCF4, 0xAC00, 0x20, 0xC131, 0xACF5, 0xC801,
      0xC73C, 0xB85C, 0x20, 0xC218, 0xC9D1, 0xB418, 0xC5C8, 0xC2B5, 0xB2C8,
      0xB2E4] @ ascii ''.''"

definition koLocationFailed :: jsstring where
  \<comment> \<open>getting the location failed.\<close>
  "koLocationFailed =
     [0xC704, 0xCE58, 0x20, 0xC815, 0xBCF4, 0xB97C, 0x20, 0xAC00, 0xC838, 0xC624,
      0xB294, 0xB370, 0x20, 0xC2E4, 0xD328, 0xD588, 0xC2B5, 0xB2C8,
      0xB2E4] @ ascii ''.''"

definition koLocationUnsupported :: jsstring where
  \<comment> \<open>this browser does not support geolocation.\<close>
  "koLocationUnsupported =
     [0xC774, 0x20, 0xBE0C, 0xB77C, 0xC6B0, 0xC800, 0xC5D0, 0xC11C, 0xB294, 0x20,
      0xC704, 0xCE58, 0x20, 0xC815, 0xBCF4, 0xAC00, 0x20, 0xC9C0, 0xC6D0, 0xB418,
      0xC9C0, 0x20, 0xC54A, 0xC2B5, 0xB2C8, 0xB2E4] @ ascii ''.''"

definition koAppTitle :: jsstring where
  \<comment> \<open>the name of the application\<close>
  "koAppTitle =
     [0xC785, 0xC2DC, 0x20, 0xB124, 0xBE44, 0xAC8C, 0xC774, 0xD130] @ ascii '' AI''"

definition koWelcomeLine1 :: jsstring where
  \<comment> \<open>first line of the welcome text\<close>
  "koWelcomeLine1 =
     [0xBCF5, 0xC7A1, 0xD55C, 0x20, 0xC785, 0xC2DC] @ ascii '', AI'' @ [0xC640,
      0x20, 0xD568, 0xAED8, 0x20, 0xBA85, 0xCF8C, 0xD55C, 0x20, 0xD574, 0xB2F5,
      0xC744, 0x20, 0xCC3E, 0xC73C, 0xC138, 0xC694] @ ascii ''. ''"

definition koWelcomeLine2 :: jsstring where
  \<comment> \<open>second line of the welcome text\<close>
  "koWelcomeLine2 =
     [0xC790, 0xB140, 0xC758, 0x20, 0xD559, 0xC0DD, 0xBD80, 0xB97C, 0x20, 0xAE30,
      0xBC18, 0xC73C, 0xB85C, 0x20, 0xC815, 0xD655, 0xD55C, 0x20, 0xC9C4, 0xB2E8,
      0xACFC, 0x20, 0xB9DE, 0xCDA4, 0xD615, 0x20, 0xD569, 0xACA9, 0x20, 0xC804,
      0xB7B5, 0xC744, 0x20, 0xC81C, 0xACF5, 0xD569, 0xB2C8, 0xB2E4] @ ascii ''.''"

definition koStartButton :: jsstring where
  \<comment> \<open>start the free analysis\<close>
  "koStartButton =
     [0xBB34, 0xB8CC, 0x20, 0xBD84, 0xC11D, 0x20, 0xC2DC, 0xC791, 0xD558, 0xAE30]"

definition koAnalyzingTitle :: jsstring where
  \<comment> \<open>the AI is analysing the record...\<close>
  "koAnalyzingTitle =
     ascii ''AI'' @ [0xAC00, 0x20, 0xD559, 0xC0DD, 0xBD80, 0xB97C, 0x20, 0xC815,
      0xBC00, 0x20, 0xBD84, 0xC11D, 0x20, 0xC911, 0xC785, 0xB2C8,
      0xB2E4] @ ascii ''...''"

definition koAnalyzingHint :: jsstring where
  \<comment> \<open>please wait; an image may take 1-2 minutes.\<close>
  "koAnalyzingHint =
     [0xC7A0, 0xC2DC, 0xB9CC, 0x20, 0xAE30, 0xB2E4, 0xB824, 0x20, 0xC8FC, 0xC138,
      0xC694] @ ascii ''. '' @ [0xC774, 0xBBF8, 0xC9C0, 0x20, 0xBD84, 0xC11D, 0x20,
      0xC2DC, 0x20, 0xC57D] @ ascii '' 1-2'' @ [0xBD84, 0x20, 0xC815, 0xB3C4, 0x20,
      0xC18C, 0xC694, 0xB420, 0x20, 0xC218, 0x20, 0xC788, 0xC2B5, 0xB2C8,
      0xB2E4] @ ascii ''.''"

definition koAnalysisError :: jsstring where
  \<comment> \<open>an error occurred during the analysis\<close>
  "koAnalysisError =
     [0xBD84, 0xC11D, 0x20, 0xC911, 0x20, 0xC624, 0xB958, 0x20, 0xBC1C, 0xC0DD]"

definition koBackToStart :: jsstring where
  \<comment> \<open>back to the start\<close>
  "koBackToStart =
     [0xCC98, 0xC74C, 0xC73C, 0xB85C, 0x20, 0xB3CC, 0xC544, 0xAC00, 0xAE30]"

definition koRestart :: jsstring where
  \<comment> \<open>start again\<close>
  "koRestart =
     [0xB2E4, 0xC2DC, 0x20, 0xC2DC, 0xC791, 0xD558, 0xAE30]"

section \<open>React elements\<close>

text \<open>
  What a render function returns: text children, number children (React prints them
  with \<open>Number::toString\<close>), host elements with their \<open>className\<close> and children,
  buttons with the action of their \<open>onClick\<close>, and elements of components with their
  props. Attributes that hold no data of the state (\<open>key\<close>, the geometry of an svg,
  the styling props of a chart) are left out.
\<close>

datatype ('a, 'c) jsx =
    Txt jsstring
  | Num number
  | El string string "('a, 'c) jsx list"
  | Button 'a string "('a, 'c) jsx list"
  | Comp 'c

text \<open>The text and number children of an element, in document order.\<close>

fun leaves :: "('a, 'c) jsx \<Rightarrow> ('a, 'c) jsx list" where
  "leaves (Txt s) = [Txt s]"
| "leaves (Num n) = [Num n]"
| "leaves (El tag cls children) = concat (map leaves children)"
| "leaves (Button a cls children) = concat (map leaves children)"
| "leaves (Comp c) = []"

text \<open>The actions the buttons of an element offer, in document order.\<close>

fun actions :: "('a, 'c) jsx \<Rightarrow> 'a list" where
  "actions (Txt s) = []"
| "actions (Num n) = []"
| "actions (El tag cls children) = concat (map actions children)"
| "actions (Button a cls children) = a # concat (map actions children)"
| "actions (Comp c) = []"

text \<open>The component elements of an element with their props, in document order.\<close>

fun widgets :: "('a, 'c) jsx \<Rightarrow> 'c list" where
  "widgets (Txt s) = []"
| "widgets (Num n) = []"
| "widgets (El tag cls children) = concat (map widgets children)"
| "widgets (Button a cls children) = concat (map widgets children)"
| "widgets (Comp c) = [c]"

text \<open>\<open>x || fallback\<close> on strings.\<close>

definition orElse :: "jsstring \<Rightarrow> jsstring \<Rightarrow> jsstring" where
  "orElse x fallback = (if x = [] then fallback else x)"

section \<open>Numbers in the view\<close>

text \<open>The decimal digits of a natural number.\<close>

fun digitsOf :: "nat \<Rightarrow> jsstring" where
  "digitsOf n =
     (if n < 10 then [of_nat (48 + n)] else digitsOf (n div 10) @ [of_nat (48 + n mod 10)])"

declare digitsOf.simps [simp del]

text \<open>
  \<open>x.toFixed(1)\<close>, after ECMAScript's \<open>Number.prototype.toFixed\<close>: below \<open>10\<^sup>2\<^sup>1\<close> in
  magnitude, the integer \<open>n\<close> nearest to \<open>10 * |x|\<close> (the larger of two), its digits
  padded to two, a point before the last, and a minus sign for a negative \<open>x\<close>. From
  \<open>10\<^sup>2\<^sup>1\<close> on the result is \<open>Number::toString\<close> of \<open>x\<close>, which is what a number
  child prints, so the model yields the number child.
\<close>

definition toFixed1 :: "number \<Rightarrow> ('a, 'c) jsx" where
  "toFixed1 x =
     (if 10 ^ 21 \<le> \<bar>x\<bar> then Num x
      else
        (let n = nat \<lfloor>\<bar>x\<bar> * 10 + 1 / 2\<rfloor>;
             m = (if n < 10 then ascii ''0'' @ digitsOf n else digitsOf n)
         in Txt ((if x < 0 then ascii ''-'' else []) @ butlast m @ ascii ''.'' @ [last m])))"

text \<open>\<open>Math.round\<close>: the nearest integer, the larger of two.\<close>

definition mathRound :: "number \<Rightarrow> int" where
  "mathRound x = \<lfloor>x + 1 / 2\<rfloor>"

section \<open>The report view (App.tsx, ReportDashboard)\<close>

datatype Tab = DashboardTab | StrategyTab | LocalTab

text \<open>
  The components the report view uses, with the props that depend on the report:
  the three charts with their \<open>data\<close> (and the \<open>name\<close> of the radar), the star icon,
  and the span of a keyword, whose \<open>style\<close> is computed from \<open>word.value\<close> and whose
  child is \<open>word.text\<close>.
\<close>

datatype Widget =
    PieChart "(jsstring \<times> number) list"
  | LineChart "GradeTrend list"
  | RadarChart "Competency list" jsstring
  | StarIcon bool
  | KeywordSpan number jsstring

type_synonym view = "(Tab, Widget) jsx"

definition pieData :: "AnalysisReport \<Rightarrow> (jsstring \<times> number) list" where
  "pieData report =
     [(koEarly, earlyDecisionProbability (applicationStrategy report)),
      (koRegular, regularDecisionProbability (applicationStrategy report))]"

definition getCategoryColor :: "jsstring \<Rightarrow> string" where
  "getCategoryColor category' =
     (if category' = koReach then ''bg-red-100 text-red-800 border-red-500''
      else if category' = koMatch then ''bg-yellow-100 text-yellow-800 border-yellow-500''
      else if category' = koSafe then ''bg-green-100 text-green-800 border-green-500''
      else ''bg-gray-100 text-gray-800 border-gray-500'')"

definition renderRecommendationCard :: "UniversityRecommendation \<Rightarrow> nat \<Rightarrow> view" where
  "renderRecommendationCard rec index =
     El ''div'' (''border-l-4 p-4 rounded-lg shadow-sm '' @ getCategoryColor (category rec))
      [El ''div'' ''flex justify-between items-start''
        [El ''div'' ''''
          [El ''span''
             (''text-sm font-bold px-2 py-1 rounded-full '' @ getCategoryColor (category rec))
             [Txt (category rec)],
           El ''h3'' ''text-lg font-bold mt-2''
             [Txt (university rec), Txt (ascii '' - ''), Txt (major rec)],
           El ''p'' ''text-sm text-slate-600'' [Txt (admissionType rec)]],
         El ''div'' ''text-right''
          [El ''p'' ''text-xl font-bold text-blue-700''
             [Num (acceptanceChance rec), Txt (ascii ''%'')],
           El ''p'' ''text-xs text-slate-500'' [Txt koExpectedAcceptanceRate]]],
       El ''p'' ''mt-3 text-sm text-slate-700 bg-white/50 p-3 rounded-md'' [Txt (rationale rec)]]"

definition renderDashboard :: "AnalysisReport \<Rightarrow> view" where
  "renderDashboard report =
     El ''div'' ''grid grid-cols-1 lg:grid-cols-3 gap-6''
      [El ''div'' ''lg:col-span-3 bg-white p-6 rounded-xl shadow-lg''
        [El ''h3'' ''text-xl font-bold text-slate-800'' [Txt koDiagnosisSummary],
         El ''p'' ''text-slate-600''
          [Txt (orElse (reportStudentName report) koStudent),
           Txt (ascii '', ''),
           Txt (orElse (recommendedApplicationType report) koAnalysisResult),
           Txt koIsFavourable]],
       El ''div'' ''bg-white p-6 rounded-xl shadow-lg''
        [El ''h3'' ''text-lg font-semibold text-slate-800 mb-4'' [Txt koEarlyVsRegular],
         Comp (PieChart (pieData report))],
       El ''div'' ''lg:col-span-2 bg-white p-6 rounded-xl shadow-lg''
        [El ''h3'' ''text-lg font-semibold text-slate-800 mb-4'' [Txt koGradeTrend],
         Comp (LineChart (gradeTrend (quantitativeAnalysis report)))],
       El ''div'' ''lg:col-span-2 bg-white p-6 rounded-xl shadow-lg''
        [El ''h3'' ''text-lg font-semibold text-slate-800 mb-4'' [Txt koCompetencies],
         Comp (RadarChart (competencyRadar (qualitativeAnalysis report))
                 (orElse (reportStudentName report) koStudent))],
       El ''div'' ''bg-white p-6 rounded-xl shadow-lg''
        [El ''h3'' ''text-lg font-semibold text-slate-800 mb-4'' [Txt koKeywordCloud],
         El ''div'' ''flex flex-wrap gap-2 items-center justify-center h-full''
          (map (\<lambda>word. Comp (KeywordSpan (keywordValue word) (keywordText word)))
             (keywordCloud (qualitativeAnalysis report)))]]"

definition renderStrategy :: "AnalysisReport \<Rightarrow> view" where
  "renderStrategy report =
     El ''div'' ''grid grid-cols-1 lg:grid-cols-2 gap-8''
      [El ''div'' ''''
        [El ''h2'' ''text-2xl font-bold mb-4 text-slate-800'' [Txt koEarlyCards],
         El ''div'' ''space-y-4''
          (map (\<lambda>(rec, index). renderRecommendationCard rec index)
             (zip (earlyDecisionRecommendations report)
                [0..<length (earlyDecisionRecommendations report)]))],
       El ''div'' ''''
        [El ''h2'' ''text-2xl font-bold mb-4 text-slate-800'' [Txt koRegularCards],
         El ''div'' ''space-y-4''
          (map (\<lambda>(rec, index). renderRecommendationCard rec index)
             (zip (regularDecisionRecommendations report)
                [0..<length (regularDecisionRecommendations report)]))]]"

text \<open>The five stars of a rating: \<open>idx < Math.round(item.rating)\<close> for \<open>idx\<close> from 0 to 4.\<close>

definition stars :: "number \<Rightarrow> view list" where
  "stars rating = map (\<lambda>idx. Comp (StarIcon (int idx < mathRound rating))) [0..<5]"

definition renderAcademy :: "Academy \<Rightarrow> view" where
  "renderAcademy item =
     El ''div'' ''p-4 border rounded-lg transition-all hover:bg-slate-50''
      [El ''div'' ''flex justify-between items-center''
        [El ''h4'' ''font-bold'' [Txt (academyName item)],
         El ''span'' ''text-sm font-medium text-slate-500'' [Txt (academyDistance item)]],
       El ''div'' ''flex items-center mt-1''
        [El ''div'' ''flex'' (stars (academyRating item)),
         El ''span'' ''text-xs text-slate-500 ml-2''
          [Txt (ascii ''(''), toFixed1 (academyRating item), Txt koReviews,
           Num (reviewCount item), Txt (ascii '')'')]]]"

definition renderStudySpace :: "StudySpace \<Rightarrow> view" where
  "renderStudySpace item =
     El ''div'' ''p-4 border rounded-lg transition-all hover:bg-slate-50''
      [El ''div'' ''flex justify-between items-center''
        [El ''h4'' ''font-bold'' [Txt (spaceName item)],
         El ''span'' ''text-sm font-medium text-slate-500'' [Txt (spaceDistance item)]],
       El ''div'' ''flex items-center mt-1''
        [El ''span''
           (''text-xs font-semibold px-2 py-0.5 rounded-full '' @
            (if spaceType item = ascii ''Library'' then ''bg-indigo-100 text-indigo-800''
             else ''bg-teal-100 text-teal-800''))
           [Txt (if spaceType item = ascii ''Library'' then koLibrary else koStudyCafe)],
         El ''div'' ''flex ml-4'' (stars (spaceRating item)),
         El ''span'' ''text-xs text-slate-500 ml-2''
          [Txt (ascii ''(''), toFixed1 (spaceRating item), Txt (ascii '')'')]]]"

text \<open>
  \<open>renderLocalSupport\<close>. The \<open>localSupport\<close> of an \<open>AnalysisReport\<close> is an object, so
  the branch for a missing one is not taken.
\<close>

definition renderLocalSupport :: "AnalysisReport \<Rightarrow> view" where
  "renderLocalSupport report =
     El ''div'' ''bg-white p-6 rounded-xl shadow-lg''
      [El ''h2'' ''text-2xl font-bold mb-2 text-slate-800'' [Txt koLocalSupportTitle],
       El ''p'' ''mb-6 text-slate-600''
        [Txt koAccordingToAnalysis, Txt (reportStudentName report), Txt koStudentTopic,
         El ''span'' ''font-bold text-blue-600'' [Txt (weakSubject (localSupport report))],
         Txt koNeedsWork],
       El ''div'' ''grid grid-cols-1 md:grid-cols-2 gap-8''
        [El ''div'' ''''
          [El ''h3'' ''text-xl font-semibold mb-4 text-slate-700'' [Txt koAcademiesHeading],
           El ''div'' ''space-y-4''
            (map renderAcademy (recommendedAcademies (localSupport report)))],
         El ''div'' ''''
          [El ''h3'' ''text-xl font-semibold mb-4 text-slate-700'' [Txt koStudySpacesHeading],
           El ''div'' ''space-y-4''
            (map renderStudySpace (recommendedStudySpaces (localSupport report)))]]]"

definition tabs :: "(Tab \<times> jsstring) list" where
  "tabs =
     [(DashboardTab, koTabDashboard), (StrategyTab, koTabStrategy), (LocalTab, koTabLocal)]"

definition tabButton :: "Tab \<Rightarrow> Tab \<times> jsstring \<Rightarrow> view" where
  "tabButton activeTab tab =
     Button (fst tab)
       ((if activeTab = fst tab then ''border-blue-500 text-blue-600''
         else ''border-transparent text-gray-500 hover:text-gray-700 hover:border-gray-300'') @
        '' whitespace-nowrap py-4 px-1 border-b-2 font-medium text-sm transition-colors'')
       [Txt (snd tab)]"

text \<open>
  The component with its state \<open>activeTab\<close>. A child \<open>cond && element\<close> is the element
  when the condition holds and renders nothing otherwise.
\<close>

definition ReportDashboard :: "Tab \<Rightarrow> AnalysisReport \<Rightarrow> view" where
  "ReportDashboard activeTab report =
     El ''div'' ''p-4 md:p-8''
      ([El ''div'' ''mb-6''
         [El ''div'' ''border-b border-gray-200''
           [El ''nav'' ''-mb-px flex space-x-8'' (map (tabButton activeTab) tabs)]]] @
       (if activeTab = DashboardTab then [renderDashboard report] else []) @
       (if activeTab = StrategyTab then [renderStrategy report] else []) @
       (if activeTab = LocalTab then [renderLocalSupport report] else []))"

section \<open>The application (App.tsx, App)\<close>

datatype AppStep = WELCOME | ONBOARDING | ANALYZING | REPORT | ERROR

record App =
  appStep :: AppStep
  studentInfo :: "StudentInfo option"
  analysisReport :: "json option"
  location :: "Location option"
  error :: "jsstring option"

definition initialApp :: App where
  "initialApp =
     \<lparr>appStep = WELCOME, studentInfo = None, analysisReport = None, location = None,
      error = None\<rparr>"

text \<open>
  \<open>handleLocationRequest\<close>, given what the browser answers: it has no geolocation, or
  it calls the success callback with a position, or it calls the error callback.
\<close>

datatype Geolocation = Unsupported | Position number number | PositionError

definition handleLocationRequest :: "Geolocation \<Rightarrow> App \<Rightarrow> App \<times> Effect list" where
  "handleLocationRequest geolocation app =
     (case geolocation of
        Position lat lon \<Rightarrow>
          (app\<lparr>location := Some \<lparr>latitude = lat, longitude = lon\<rparr>\<rparr>,
           [Alert koLocationCollected])
      | PositionError \<Rightarrow> (app, [Alert koLocationFailed])
      | Unsupported \<Rightarrow> (app, [Alert koLocationUnsupported]))"

text \<open>
  \<open>handleOnboardingComplete\<close> runs in two stretches. The first sets the busy state
  and calls \<open>analyzeStudentData\<close> with the location of the current state.
\<close>

definition startAnalysis ::
  "(number \<Rightarrow> jsstring) \<Rightarrow> StudentInfo \<Rightarrow> App \<Rightarrow> App \<times> Effect list" where
  "startAnalysis numberToString info' app =
     (app\<lparr>studentInfo := Some info', appStep := ANALYZING, error := None\<rparr>,
      [GenerateContent (analysisRequest numberToString info' (location app))])"

text \<open>
  The second runs when \<open>analyzeStudentData\<close> has settled: the report, which is whatever
  the response parsed to, or the \<open>catch\<close> with
  \<open>err.message || 'An unknown error occurred.'\<close>.
\<close>

definition analysisSettled :: "jsstring + json \<Rightarrow> App \<Rightarrow> App \<times> Effect list" where
  "analysisSettled result app =
     (case result of
        Inr report \<Rightarrow> (app\<lparr>analysisReport := Some report, appStep := REPORT\<rparr>, [])
      | Inl message \<Rightarrow>
          (app\<lparr>error := Some (orElse message (ascii ''An unknown error occurred.'')),
               appStep := ERROR\<rparr>, []))"

text \<open>The whole handler, given the outcome of the model call: the states and effects.\<close>

definition handleOnboardingComplete ::
  "(jsstring \<Rightarrow> json option) \<Rightarrow> (number \<Rightarrow> jsstring) \<Rightarrow> StudentInfo \<Rightarrow>
     ModelOutcome \<Rightarrow> App \<Rightarrow> App list \<times> Effect list" where
  "handleOnboardingComplete jsonParse numberToString info' outcome app =
     (case startAnalysis numberToString info' app of
        (app1, fx1) \<Rightarrow>
          (case analysisSettled (analyzeStudentData jsonParse outcome) app1 of
             (app2, fx2) \<Rightarrow> ([app1, app2], fx1 @ fx2)))"

definition reset :: "App \<Rightarrow> App" where
  "reset app =
     app\<lparr>appStep := WELCOME, studentInfo := None, analysisReport := None, error := None,
         location := None\<rparr>"

text \<open>
  The actions of the buttons of \<open>App\<close>, and the two components it renders with the
  props that come from the state. \<open>ReportDashboardOf report\<close> is the element
  \<open><ReportDashboard report={analysisReport} />\<close>, with the stored value as its prop;
  \<open>ReportDashboard\<close> above is what the component renders for a report of the declared
  type.
\<close>

datatype AppAction = StartOnboarding | Reset

datatype AppComponent = OnboardingForm | ReportDashboardOf json

type_synonym appView = "(AppAction, AppComponent) jsx"

definition spinner :: "string \<Rightarrow> appView" where
  "spinner cls = El ''svg'' cls [El ''circle'' ''opacity-25'' [], El ''path'' ''opacity-75'' []]"

text \<open>
  \<open>renderContent\<close>; \<open>None\<close> is \<open>null\<close>. In the report step the dashboard is rendered
  when the stored value is truthy.
\<close>

definition renderContent :: "App \<Rightarrow> appView option" where
  "renderContent app =
     (case appStep app of
        WELCOME \<Rightarrow>
          Some (El ''div'' ''text-center p-8''
            [El ''h1'' ''text-4xl md:text-5xl font-extrabold text-slate-800 mb-4''
               [Txt koAppTitle],
             El ''p'' ''text-lg text-slate-600 max-w-2xl mx-auto mb-8''
               [Txt koWelcomeLine1,
                El ''br'' '''' [],
                Txt koWelcomeLine2],
             Button StartOnboarding
               (''bg-blue-600 text-white font-bold py-3 px-8 rounded-full text-lg '' @
                ''hover:bg-blue-700 transition-transform transform hover:scale-105 shadow-lg'')
               [Txt koStartButton]])
      | ONBOARDING \<Rightarrow> Some (Comp OnboardingForm)
      | ANALYZING \<Rightarrow>
          Some (El ''div'' ''text-center p-8 flex flex-col items-center justify-center''
            [spinner ''animate-spin h-16 w-16 text-blue-600 mb-6'',
             El ''h2'' ''text-2xl font-bold text-slate-800''
               [Txt koAnalyzingTitle],
             El ''p'' ''text-slate-600 mt-2''
               [Txt koAnalyzingHint]])
      | REPORT \<Rightarrow>
          (case analysisReport app of
             Some report \<Rightarrow>
               if truthy report then Some (Comp (ReportDashboardOf report)) else None
           | None \<Rightarrow> None)
      | ERROR \<Rightarrow>
          Some (El ''div'' ''text-center p-8''
            [El ''h2'' ''text-2xl font-bold text-red-600'' [Txt koAnalysisError],
             El ''p'' ''text-slate-600 my-4''
               (case error app of Some message \<Rightarrow> [Txt message] | None \<Rightarrow> []),
             Button Reset
               ''bg-blue-600 text-white font-bold py-2 px-6 rounded-lg hover:bg-blue-700''
               [Txt koBackToStart]]))"

text \<open>What \<open>App\<close> returns: the header, the content and the footer.\<close>

definition renderApp :: "App \<Rightarrow> appView" where
  "renderApp app =
     El ''div'' ''min-h-screen bg-slate-100 font-sans text-slate-900''
      [El ''header'' ''bg-white shadow-md''
        [El ''div'' ''container mx-auto px-4 py-4 flex justify-between items-center''
          (El ''div'' ''text-2xl font-bold text-blue-700'' [Txt (ascii ''Admissions Navigator AI'')] #
           (if appStep app \<noteq> WELCOME
            then [Button Reset ''text-sm text-slate-600 hover:text-blue-600'' [Txt koRestart]]
            else []))],
       El ''main'' ''container mx-auto px-4 py-8''
        (case renderContent app of Some content \<Rightarrow> [content] | None \<Rightarrow> []),
       El ''footer'' ''text-center py-4 text-xs text-slate-500''
        [Txt ([0xA9] @
           ascii '' 2024 Admissions Navigator AI. All rights reserved. This is an '' @
           ascii ''AI-generated analysis and should be used for reference purposes only.'')]]"

section \<open>Auxiliary definitions for the statements\<close>


text \<open>
  An instance of \<open>JSON.parse\<close> for concrete runs: its restriction to the texts of the
  literals \<open>true\<close> and \<open>false\<close>, with JSON white space (space, TAB, LF, CR) around
  them. On every other text it yields \<open>None\<close>.
\<close>

definition isJsonWhiteSpace :: "codeunit \<Rightarrow> bool" where
  "isJsonWhiteSpace c \<longleftrightarrow> List.member [0x20, 0x9, 0xA, 0xD] c"

definition parseJsonLiteral :: "jsstring \<Rightarrow> bool option" where
  "parseJsonLiteral s =
     (let t = rev (dropWhile isJsonWhiteSpace (rev (dropWhile isJsonWhiteSpace s)))
      in if t = ascii ''true'' then Some True
         else if t = ascii ''false'' then Some False
         else None)"

text \<open>
  A second instance, with the values: the literals \<open>true\<close> and \<open>false\<close>, \<open>null\<close>
  and the empty object \<open>{}\<close>, with JSON white space around them.
\<close>

definition parseJsonSimple :: "jsstring \<Rightarrow> json option" where
  "parseJsonSimple s =
     (let t = rev (dropWhile isJsonWhiteSpace (rev (dropWhile isJsonWhiteSpace s)))
      in if t = ascii ''{}'' then Some (JObject [])
         else if t = ascii ''null'' then Some JNull
         else map_option JBool (parseJsonLiteral s))"

text \<open>
  An instance of \<open>Number::toString\<close> for concrete runs, used at integers only: on an
  integer below \<open>10\<^sup>2\<^sup>1\<close> in magnitude it prints the decimal digits, with a minus sign
  for a negative one.
\<close>

definition integerToString :: "number \<Rightarrow> jsstring" where
  "integerToString x = (if x < 0 then ascii ''-'' else []) @ digitsOf (nat \<lfloor>\<bar>x\<bar>\<rfloor>)"

text \<open>Concrete values.\<close>

definition exampleRecord :: ManualAcademicRecord where
  "exampleRecord = emptyManualRecord\<lparr>awards := ascii ''Math Olympiad''\<rparr>"

definition exampleImage :: ImagePayload where
  "exampleImage = \<lparr>mimeType = ascii ''image/png'', imageData = ascii ''AAAA''\<rparr>"

definition exampleInfo :: StudentInfo where
  "exampleInfo = initialInfo\<lparr>grade := Grade3, desiredField := ascii ''CS''\<rparr>"

definition exampleRecommendation :: UniversityRecommendation where
  "exampleRecommendation =
     \<lparr>category = koMatch, university = ascii ''KAIST'', major = ascii ''CS'',
      admissionType = ascii ''General'', acceptanceChance = 55,
      rationale = ascii ''Strong record''\<rparr>"

definition exampleReport :: AnalysisReport where
  "exampleReport =
     \<lparr>reportStudentName = ascii ''Kim'',
      recommendedApplicationType = koEarly,
      quantitativeAnalysis =
        \<lparr>gpaZScore = [\<lparr>gpaSubject = ascii ''Math'', zScore = 1\<rparr>], gradeTrend = [],
         mockExamAnalysis = []\<rparr>,
      qualitativeAnalysis = \<lparr>keywordCloud = [], competencyRadar = []\<rparr>,
      applicationStrategy =
        \<lparr>earlyDecisionProbability = 60, regularDecisionProbability = 40\<rparr>,
      earlyDecisionRecommendations = [exampleRecommendation],
      regularDecisionRecommendations = [],
      localSupport =
        \<lparr>weakSubject = ascii ''Math'',
         recommendedAcademies =
           [\<lparr>academyName = ascii ''Alpha'', academyDistance = ascii ''1km'',
             academyRating = 17 / 4, reviewCount = 10\<rparr>],
         recommendedStudySpaces = []\<rparr>\<rparr>"

section \<open>Trimming\<close>

lemma trim_eq_Nil_iff: "trim s = [] \<longleftrightarrow> (\<forall>c \<in> set s. isWhiteSpace c)"
proof
  assume "trim s = []"
  then have "dropWhile isWhiteSpace (rev (dropWhile isWhiteSpace s)) = []"
    by (simp add: trim_def)
  then have all: "\<forall>c \<in> set (dropWhile isWhiteSpace s). isWhiteSpace c"
    by simp
  have "dropWhile isWhiteSpace s = []"
  proof (cases "dropWhile isWhiteSpace s")
    case Nil
    then show ?thesis .
  next
    case (Cons y ys)
    then have "\<not> isWhiteSpace (hd (dropWhile isWhiteSpace s))"
      using hd_dropWhile [of isWhiteSpace s] by simp
    with Cons all show ?thesis by simp
  qed
  then show "\<forall>c \<in> set s. isWhiteSpace c"
    by simp
next
  assume "\<forall>c \<in> set s. isWhiteSpace c"
  then have "dropWhile isWhiteSpace s = []"
    by simp
  then show "trim s = []"
    unfolding trim_def by (simp only: rev.simps dropWhile.simps)
qed

lemma nonBlank_iff: "nonBlank s \<longleftrightarrow> (\<exists>c \<in> set s. \<not> isWhiteSpace c)"
  by (auto simp: nonBlank_def trim_eq_Nil_iff)

text \<open>Stripping a class of characters from both ends of a text.\<close>

lemma strip_both_decomp:
  "rev (dropWhile P (rev (dropWhile P s))) = t \<Longrightarrow>
   \<exists>a b. s = a @ t @ b \<and> (\<forall>x \<in> set a. P x) \<and> (\<forall>x \<in> set b. P x)"
proof -
  assume t: "rev (dropWhile P (rev (dropWhile P s))) = t"
  let ?u = "dropWhile P s"
  have s: "s = takeWhile P s @ ?u"
    by simp
  have "takeWhile P (rev ?u) @ dropWhile P (rev ?u) = rev ?u"
    by (rule takeWhile_dropWhile_id)
  moreover have "dropWhile P (rev ?u) = rev t"
    using t by (metis rev_rev_ident)
  ultimately have "rev ?u = takeWhile P (rev ?u) @ rev t"
    by simp
  then have "rev (rev ?u) = rev (takeWhile P (rev ?u) @ rev t)"
    by (rule arg_cong)
  then have u: "?u = t @ rev (takeWhile P (rev ?u))"
    by (simp only: rev_rev_ident rev_append)
  have "\<forall>x \<in> set (takeWhile P s). P x" "\<forall>x \<in> set (rev (takeWhile P (rev ?u))). P x"
    by (auto dest: set_takeWhileD)
  with s u show ?thesis
    by metis
qed

lemma dropWhile_lead:
  "\<forall>x \<in> set a. P x \<Longrightarrow> t \<noteq> [] \<Longrightarrow> \<not> P (hd t) \<Longrightarrow> dropWhile P (a @ t) = t"
  by (cases t) (simp_all add: dropWhile_append3)

lemma strip_both_sandwich:
  assumes "\<forall>x \<in> set a. P x" "\<forall>x \<in> set b. P x" "t \<noteq> []" "\<not> P (hd t)" "\<not> P (last t)"
  shows "rev (dropWhile P (rev (dropWhile P (a @ t @ b)))) = t"
proof -
  have "dropWhile P (a @ t @ b) = t @ b"
    using assms(1,3,4) by (intro dropWhile_lead) simp_all
  moreover have "dropWhile P (rev b @ rev t) = rev t"
    using assms(2,3,5) by (intro dropWhile_lead) (simp_all add: hd_rev)
  ultimately show ?thesis
    by simp
qed

lemma trim_sandwich:
  assumes "\<forall>x \<in> set a. isJsonWhiteSpace x" "\<forall>x \<in> set b. isJsonWhiteSpace x"
    "t \<noteq> []" "\<not> isWhiteSpace (hd t)" "\<not> isWhiteSpace (last t)"
  shows "trim (a @ t @ b) = t"
proof -
  have sub: "isJsonWhiteSpace x \<Longrightarrow> isWhiteSpace x" for x
    by (auto simp: isJsonWhiteSpace_def isWhiteSpace_def)
  show ?thesis
    unfolding trim_def using assms sub by (intro strip_both_sandwich) auto
qed

section \<open>Step completion\<close>

text \<open>
  C1, as stated: a step is complete iff every required field is a non-empty string.
  This fails at step 1 with a grade chosen and a desired field of one space: the field
  is a non-empty string, and the step is not complete.
\<close>

theorem C1_nonempty_counterexample:
  "isStepComplete
     (initialOnboarding\<lparr>info := initialInfo\<lparr>grade := Grade1, desiredField := ascii '' ''\<rparr>\<rparr>)
   \<noteq> specStepComplete
     (initialOnboarding\<lparr>info := initialInfo\<lparr>grade := Grade1, desiredField := ascii '' ''\<rparr>\<rparr>)"
  by (simp add: isStepComplete_def specStepComplete_def initialOnboarding_def initialInfo_def
      ascii_def trim_def isWhiteSpace_def)

text \<open>
  C1, amended: a field counts when it holds a character that is not white space.
  Step 1 is complete iff a grade is chosen and the desired field counts; step 2 iff a
  manual record exists and one of its five fields counts; step 3 iff all five mock-exam
  scores count; no other step number is ever complete.
\<close>

theorem C1_isStepComplete_nonblank:
  "isStepComplete s =
     (if step s = 1 then
        grade (info s) \<noteq> GradeEmpty \<and> (\<exists>c \<in> set (desiredField (info s)). \<not> isWhiteSpace c)
      else if step s = 2 then
        (\<exists>r. manualAcademicRecord (info s) = Some r \<and>
          (nonBlank (awards r) \<or> nonBlank (creativeActivities r) \<or>
           nonBlank (detailedAbilities r) \<or> nonBlank (readingActivities r) \<or>
           nonBlank (behavioralCharacteristics r)))
      else if step s = 3 then
        nonBlank (korean (mockExam (info s))) \<and> nonBlank (math (mockExam (info s))) \<and>
        nonBlank (english (mockExam (info s))) \<and> nonBlank (inquiry1 (mockExam (info s))) \<and>
        nonBlank (inquiry2 (mockExam (info s)))
      else False)"
  by (auto simp: isStepComplete_def manualRecordValues_def mockExamValues_def nonBlank_def
      trim_eq_Nil_iff split: option.splits)

text \<open>
  C1 at concrete states: step 1 with grade 2 and the desired field \<open>" cs"\<close> is
  complete; step 4 is not.
\<close>

theorem C1_isStepComplete_witness:
  "isStepComplete
     (initialOnboarding\<lparr>info := initialInfo\<lparr>grade := Grade2, desiredField := ascii '' cs''\<rparr>\<rparr>)
   \<and> \<not> isStepComplete (initialOnboarding\<lparr>step := 4\<rparr>)"
  using C1_isStepComplete_nonblank
    [of "initialOnboarding\<lparr>info := initialInfo\<lparr>grade := Grade2, desiredField := ascii '' cs''\<rparr>\<rparr>"]
    C1_isStepComplete_nonblank [of "initialOnboarding\<lparr>step := 4\<rparr>"]
  by (simp add: initialOnboarding_def initialInfo_def ascii_def isWhiteSpace_def)

section \<open>The analysis prompt\<close>

lemma mem_sublist_concat: "x \<in> set xss \<Longrightarrow> sublist x (concat xss)"
proof -
  assume "x \<in> set xss"
  then obtain ys zs where "xss = ys @ x # zs"
    by (auto simp: in_set_conv_decomp)
  then have "concat xss = concat ys @ x @ concat zs"
    by simp
  then show ?thesis
    by (simp only: sublist_appendI)
qed

lemma sublist_promptText:
  "sublist m (promptText i m a l)" "sublist a (promptText i m a l)"
  "sublist l (promptText i m a l)" "sublist promptTail (promptText i m a l)"
  unfolding promptText_def by (rule mem_sublist_concat, simp)+

lemma general_advice_in_tail:
  "sublist (ascii ''If location is not available, provide general advice.'') promptTail"
  unfolding promptTail_def by (rule mem_sublist_concat) simp

lemma getAnalysisPrompt_parts:
  "getAnalysisPrompt numberToString student loc =
     TextPart (promptText student (mockExamInfo (mockExam student))
        (fst (academicRecordSource student)) (locationInfo numberToString loc))
     # snd (academicRecordSource student)"
  by (simp add: getAnalysisPrompt_def split: prod.splits)

text \<open>
  C3: when all five mock-exam scores are blank, the text of the request tells the model
  that the step was skipped and asks it to estimate the academic performance from the
  academic record; when a score is not blank, the text lists the five scores.
\<close>

theorem C3_mock_exam_line:
  "\<exists>t rest. getAnalysisPrompt numberToString student loc = TextPart t # rest \<and>
     (if nonBlank (korean (mockExam student)) \<or> nonBlank (math (mockExam student)) \<or>
         nonBlank (english (mockExam student)) \<or> nonBlank (inquiry1 (mockExam student)) \<or>
         nonBlank (inquiry2 (mockExam student))
      then sublist
        (concat [ascii ''- Mock Exam Scores (percentile): Korean '', korean (mockExam student),
           ascii '', Math '', math (mockExam student),
           ascii '', English '', english (mockExam student),
           ascii '', Inquiry1 '', inquiry1 (mockExam student),
           ascii '', Inquiry2 '', inquiry2 (mockExam student)]) t
      else sublist
        (ascii ''- Mock Exam Scores: The user skipped this step. Please estimate the student'' @
         [0x27] @
         ascii ''s academic performance for the regular decision ('' @ [0xC815, 0xC2DC] @
         ascii '') analysis based on the provided academic record ('' @ [0xD559, 0xC0DD] @
         ascii '' '' @ [0xC0DD, 0xD65C, 0xAE30, 0xB85D, 0xBD80] @ ascii '') content.'') t)"
proof -
  let ?t = "promptText student (mockExamInfo (mockExam student))
     (fst (academicRecordSource student)) (locationInfo numberToString loc)"
  have sub: "sublist (mockExamInfo (mockExam student)) ?t"
    by (rule sublist_promptText)
  show ?thesis
    using sub
    by (auto simp: getAnalysisPrompt_parts mockExamInfo_def mockExamScoresProvided_def
        mockExamValues_def nonBlank_def)
qed

text \<open>C3 at the form with no score entered: the request asks for the estimate.\<close>

theorem C3_mock_exam_witness:
  "\<exists>t rest. getAnalysisPrompt integerToString exampleInfo None = TextPart t # rest \<and>
     sublist
        (ascii ''- Mock Exam Scores: The user skipped this step. Please estimate the student'' @
         [0x27] @
         ascii ''s academic performance for the regular decision ('' @ [0xC815, 0xC2DC] @
         ascii '') analysis based on the provided academic record ('' @ [0xD559, 0xC0DD] @
         ascii '' '' @ [0xC0DD, 0xD65C, 0xAE30, 0xB85D, 0xBD80] @ ascii '') content.'') t"
proof -
  have blank: "\<not> nonBlank (korean (mockExam exampleInfo))" "\<not> nonBlank (math (mockExam exampleInfo))"
    "\<not> nonBlank (english (mockExam exampleInfo))" "\<not> nonBlank (inquiry1 (mockExam exampleInfo))"
    "\<not> nonBlank (inquiry2 (mockExam exampleInfo))"
    by (simp_all add: exampleInfo_def initialInfo_def emptyMockExam_def nonBlank_def trim_def)
  show ?thesis
    using C3_mock_exam_line [of integerToString exampleInfo None] blank
    by (simp only: if_False simp_thms)
qed

text \<open>
  C4: with no location the request is built all the same, its text says that the user
  has not provided a location and asks for general advice when the location is not
  available; with a location its text holds the latitude and the longitude.
\<close>

theorem C4_location_line:
  "(\<exists>t rest. getAnalysisPrompt numberToString student None = TextPart t # rest \<and>
      sublist (ascii ''The user has not provided their location.'') t \<and>
      sublist (ascii ''If location is not available, provide general advice.'') t) \<and>
   (\<exists>t rest. getAnalysisPrompt numberToString student (Some l) = TextPart t # rest \<and>
      sublist
        (ascii ''The user is located at latitude '' @ numberToString (latitude l) @
         ascii '' and longitude '' @ numberToString (longitude l) @ ascii ''.'') t)"
proof -
  let ?t = "\<lambda>loc. promptText student (mockExamInfo (mockExam student))
        (fst (academicRecordSource student)) (locationInfo numberToString loc)"
  have "sublist (locationInfo numberToString None) (?t None)"
    by (rule sublist_promptText)
  then have none: "sublist (ascii ''The user has not provided their location.'') (?t None)"
    by (simp add: locationInfo_def)
  have "sublist promptTail (?t None)"
    by (rule sublist_promptText)
  with general_advice_in_tail
  have advice: "sublist (ascii ''If location is not available, provide general advice.'') (?t None)"
    by (rule sublist_order.order_trans)
  have "sublist (locationInfo numberToString (Some l)) (?t (Some l))"
    by (rule sublist_promptText)
  then have some: "sublist
        (ascii ''The user is located at latitude '' @ numberToString (latitude l) @
         ascii '' and longitude '' @ numberToString (longitude l) @ ascii ''.'') (?t (Some l))"
    by (simp add: locationInfo_def)
  from none advice some show ?thesis
    by (simp add: getAnalysisPrompt_parts)
qed

text \<open>C4 at latitude 37 and longitude 127.\<close>

theorem C4_location_witness:
  "(\<exists>t rest. getAnalysisPrompt integerToString exampleInfo None = TextPart t # rest \<and>
      sublist (ascii ''The user has not provided their location.'') t \<and>
      sublist (ascii ''If location is not available, provide general advice.'') t) \<and>
   (\<exists>t rest. getAnalysisPrompt integerToString exampleInfo
        (Some \<lparr>latitude = 37, longitude = 127\<rparr>) = TextPart t # rest \<and>
      sublist (ascii ''The user is located at latitude 37 and longitude 127.'') t)"
proof -
  have "integerToString 37 = ascii ''37''" "integerToString 127 = ascii ''127''"
    by (simp_all add: integerToString_def digitsOf.simps ascii_def)
  then show ?thesis
    using C4_location_line [of integerToString exampleInfo "\<lparr>latitude = 37, longitude = 127\<rparr>"]
    by (simp add: ascii_def)
qed

section \<open>The source of the academic record\<close>









section \<open>The requests\<close>

text \<open>
  C7, as stated: the parts of every request are the instruction text followed by at
  most one image. The request of the image extraction does not begin with a text part:
  its image comes first.
\<close>

theorem C7_text_first_counterexample:
  "\<not> (\<exists>t rest. parts (extractionRequest exampleImage) = TextPart t # rest)"
  by (simp add: extractionRequest_def)

text \<open>
  C7, amended: the parts of the analysis request are the instruction text followed by
  at most one inline image (the stored image, sent when there is no manual record that
  is not blank); the parts of the extraction request are the inline image followed by
  the instruction text; each request carries its declared response schema.
\<close>

theorem C7_request_parts:
  "(\<exists>t. parts (analysisRequest numberToString student loc) =
      TextPart t #
      (if hasManualRecord student then []
       else case academicRecordImage student of Some img \<Rightarrow> [InlineData img] | None \<Rightarrow> [])) \<and>
   responseSchema (analysisRequest numberToString student loc) = analysisSchema \<and>
   parts (extractionRequest imagePayload) = [InlineData imagePayload, TextPart extractionPrompt] \<and>
   responseSchema (extractionRequest imagePayload) = extractionSchema"
proof -
  have "snd (academicRecordSource student) =
      (if hasManualRecord student then []
       else case academicRecordImage student of Some img \<Rightarrow> [InlineData img] | None \<Rightarrow> [])"
    by (auto simp: academicRecordSource_def hasManualRecord_def split: option.splits)
  then show ?thesis
    by (simp add: analysisRequest_def extractionRequest_def getAnalysisPrompt_parts)
qed

text \<open>C7 at a form with an image and no manual record: the text, then the image.\<close>

theorem C7_request_parts_witness:
  "(\<exists>t. parts (analysisRequest integerToString
        (exampleInfo\<lparr>academicRecordImage := Some exampleImage\<rparr>) None) =
      [TextPart t, InlineData exampleImage]) \<and>
   parts (extractionRequest exampleImage) = [InlineData exampleImage, TextPart extractionPrompt]"
proof -
  have "\<not> hasManualRecord (exampleInfo\<lparr>academicRecordImage := Some exampleImage\<rparr>)"
    by (simp add: hasManualRecord_def exampleInfo_def initialInfo_def)
  then show ?thesis
    using C7_request_parts [of integerToString
        "exampleInfo\<lparr>academicRecordImage := Some exampleImage\<rparr>" None exampleImage]
    by simp
qed

section \<open>The response of the analysis\<close>

lemma strip_fenced:
  "stripTrailingFence (stripLeadingFence (jsonFenceOpen @ J @ jsonFenceClose)) = J"
  by (simp add: stripLeadingFence_def stripTrailingFence_def suffix_def)

lemma strip_unfenced:
  "\<not> prefix jsonFenceOpen T \<Longrightarrow> \<not> suffix jsonFenceClose T \<Longrightarrow>
   stripTrailingFence (stripLeadingFence T) = T"
  by (simp add: stripLeadingFence_def stripTrailingFence_def)

lemma literal_ends:
  "t = ascii ''true'' \<or> t = ascii ''false'' \<Longrightarrow>
   t \<noteq> [] \<and> \<not> isWhiteSpace (hd t) \<and> \<not> isWhiteSpace (last t)"
  by (auto simp: ascii_def isWhiteSpace_def)

lemma parseJsonLiteral_core:
  "t = ascii ''true'' \<or> t = ascii ''false'' \<Longrightarrow>
   rev (dropWhile isJsonWhiteSpace (rev (dropWhile isJsonWhiteSpace t))) = t"
  by (auto simp: ascii_def isJsonWhiteSpace_def)

lemma parseJsonLiteral_trim:
  "parseJsonLiteral s = Some v \<Longrightarrow> parseJsonLiteral (trim s) = Some v"
proof -
  assume p: "parseJsonLiteral s = Some v"
  define t where "t = rev (dropWhile isJsonWhiteSpace (rev (dropWhile isJsonWhiteSpace s)))"
  from p have lit: "t = ascii ''true'' \<or> t = ascii ''false''"
    by (auto simp: parseJsonLiteral_def t_def Let_def split: if_splits)
  obtain a b where s: "s = a @ t @ b" and ws: "\<forall>x \<in> set a. isJsonWhiteSpace x"
      "\<forall>x \<in> set b. isJsonWhiteSpace x"
    using strip_both_decomp [where P = isJsonWhiteSpace and s = s, OF refl] t_def by blast
  from lit have ends: "t \<noteq> []" "\<not> isWhiteSpace (hd t)" "\<not> isWhiteSpace (last t)"
    by (simp_all add: literal_ends)
  have "trim (a @ t @ b) = t"
    using ws ends by (rule trim_sandwich)
  with s have tr: "trim s = t"
    by simp
  have "parseJsonLiteral t = parseJsonLiteral s"
    unfolding parseJsonLiteral_def parseJsonLiteral_core [OF lit] t_def [symmetric] ..
  with tr p show ?thesis
    by simp
qed

text \<open>
  C10: let \<open>JSON.parse\<close> accept a text it accepts also with the white space at its
  ends trimmed, with the same value (it skips the JSON white space around a value
  itself). Then for a response that is the opening fence, a text \<open>J\<close> that parses, and
  the closing fence, exactly the two fences are stripped and the result is the parse of
  \<open>J\<close>; and a response that parses and has neither fence yields its parse.
\<close>

theorem C10_fenced_response:
  assumes "\<forall>s v. jsonParse s = Some v \<longrightarrow> jsonParse (trim s) = Some v"
  shows "(jsonParse J = Some v \<longrightarrow>
           stripTrailingFence (stripLeadingFence (jsonFenceOpen @ J @ jsonFenceClose)) = J \<and>
           analyzeStudentData jsonParse (Response (Some (jsonFenceOpen @ J @ jsonFenceClose))) =
             Inr v) \<and>
         (jsonParse T = Some v \<and> \<not> prefix jsonFenceOpen T \<and> \<not> suffix jsonFenceClose T \<longrightarrow>
           analyzeStudentData jsonParse (Response (Some T)) = Inr v)"
  using assms
  by (auto simp: analyzeStudentData_def cleanResponseText_def strip_fenced strip_unfenced)

text \<open>
  C10 at the literal parser: the fenced response \<open>" true"\<close> between the two fences
  and the bare response \<open>"false"\<close> yield \<open>true\<close> and \<open>false\<close>.
\<close>

theorem C10_fenced_response_witness:
  "analyzeStudentData parseJsonLiteral
     (Response (Some (jsonFenceOpen @ ascii '' true'' @ jsonFenceClose))) = Inr True \<and>
   analyzeStudentData parseJsonLiteral (Response (Some (ascii ''false''))) = Inr False"
proof -
  have stable: "\<forall>s v. parseJsonLiteral s = Some v \<longrightarrow> parseJsonLiteral (trim s) = Some v"
    by (simp add: parseJsonLiteral_trim)
  have fenced: "parseJsonLiteral (ascii '' true'') = Some True"
    by (simp add: parseJsonLiteral_def ascii_def isJsonWhiteSpace_def)
  have bare: "parseJsonLiteral (ascii ''false'') = Some False \<and>
      \<not> prefix jsonFenceOpen (ascii ''false'') \<and> \<not> suffix jsonFenceClose (ascii ''false'')"
    by (simp add: parseJsonLiteral_def ascii_def isJsonWhiteSpace_def jsonFenceOpen_def
        jsonFenceClose_def suffix_to_prefix)
  from C10_fenced_response [OF stable, of "ascii '' true''" True "ascii ''false''"] fenced
  have one: "analyzeStudentData parseJsonLiteral
     (Response (Some (jsonFenceOpen @ ascii '' true'' @ jsonFenceClose))) = Inr True"
    by blast
  from C10_fenced_response [OF stable, of "ascii ''false''" False "ascii ''false''"] bare
  have two: "analyzeStudentData parseJsonLiteral (Response (Some (ascii ''false''))) = Inr False"
    by blast
  from one two show ?thesis ..
qed

section \<open>Failure of the analysis\<close>

lemma actions_error:
  "appStep app = ERROR \<Longrightarrow> actions (renderApp app) = [Reset, Reset]"
  by (cases "error app") (simp_all add: renderApp_def renderContent_def)

lemma leaves_error:
  "appStep app = ERROR \<Longrightarrow> error app = Some m \<Longrightarrow> Txt m \<in> set (leaves (renderApp app))"
  by (simp add: renderApp_def renderContent_def)

text \<open>
  C5, as stated: a response that does not match the schema leads to the error state.
  The response \<open>{}\<close> parses to the empty object, which lacks every required property
  of the analysis schema; the value is stored as the report and the run ends in the
  report step, with no error.
\<close>

theorem C5_mismatch_counterexample:
  "\<not> matchesSchema analysisSchema (JObject []) \<and>
   (\<exists>app1 app2.
      handleOnboardingComplete parseJsonSimple integerToString exampleInfo
          (Response (Some (ascii ''{}''))) (initialApp\<lparr>appStep := ONBOARDING\<rparr>) =
        ([app1, app2], [GenerateContent (analysisRequest integerToString exampleInfo None)]) \<and>
      appStep app2 = REPORT \<and> analysisReport app2 = Some (JObject []) \<and> error app2 = None \<and>
      renderContent app2 = Some (Comp (ReportDashboardOf (JObject []))))"
proof -
  have "cleanResponseText (ascii ''{}'') = ascii ''{}''"
    by (simp add: cleanResponseText_def stripLeadingFence_def stripTrailingFence_def
        jsonFenceOpen_def jsonFenceClose_def suffix_to_prefix trim_def isWhiteSpace_def ascii_def)
  moreover have "parseJsonSimple (ascii ''{}'') = Some (JObject [])"
    by (simp add: parseJsonSimple_def ascii_def isJsonWhiteSpace_def)
  ultimately have "analyzeStudentData parseJsonSimple (Response (Some (ascii ''{}''))) =
      Inr (JObject [])"
    by (simp add: analyzeStudentData_def)
  then have run: "\<exists>app1 app2.
      handleOnboardingComplete parseJsonSimple integerToString exampleInfo
          (Response (Some (ascii ''{}''))) (initialApp\<lparr>appStep := ONBOARDING\<rparr>) =
        ([app1, app2], [GenerateContent (analysisRequest integerToString exampleInfo None)]) \<and>
      appStep app2 = REPORT \<and> analysisReport app2 = Some (JObject []) \<and> error app2 = None \<and>
      renderContent app2 = Some (Comp (ReportDashboardOf (JObject [])))"
    by (simp add: handleOnboardingComplete_def startAnalysis_def analysisSettled_def
        initialApp_def renderContent_def)
  have "\<not> matchesSchema analysisSchema (JObject [])"
    by (simp add: analysisSchema_def)
  then show ?thesis
    using run ..
qed

text \<open>
  C5, amended: when the model call throws, or the response has no text, or the cleaned
  text does not parse, \<open>handleOnboardingComplete\<close> passes through the busy state and
  ends in the error state with the message of the failure; it has sent the one request
  and no other; the error state shows the message, the only action it offers is the
  restart (in the header and under the message), and the restart leads to the initial
  state. When the cleaned text parses, the value is not checked against the schema:
  whatever it is, it is stored as the report and the run ends in the report step with
  no error, after the one request.
\<close>

theorem C5_analysis_failure:
  "(outcome = CallFailed \<or> outcome = Response None \<or>
     (\<exists>t. outcome = Response (Some t) \<and> jsonParse (cleanResponseText t) = None) \<longrightarrow>
    (\<exists>app1 app2.
      handleOnboardingComplete jsonParse numberToString i outcome app =
        ([app1, app2], [GenerateContent (analysisRequest numberToString i (location app))]) \<and>
      appStep app1 = ANALYZING \<and>
      appStep app2 = ERROR \<and> error app2 = Some analysisFailure \<and>
      Txt analysisFailure \<in> set (leaves (renderApp app2)) \<and>
      actions (renderApp app2) = [Reset, Reset] \<and>
      reset app2 = initialApp)) \<and>
   (\<forall>t v. outcome = Response (Some t) \<and> jsonParse (cleanResponseText t) = Some v \<longrightarrow>
    (\<exists>app1 app2.
      handleOnboardingComplete jsonParse numberToString i outcome app =
        ([app1, app2], [GenerateContent (analysisRequest numberToString i (location app))]) \<and>
      appStep app1 = ANALYZING \<and>
      appStep app2 = REPORT \<and> analysisReport app2 = Some v \<and> error app2 = None))"
proof (intro conjI allI impI)
  assume "outcome = CallFailed \<or> outcome = Response None \<or>
     (\<exists>t. outcome = Response (Some t) \<and> jsonParse (cleanResponseText t) = None)"
  then have fail: "analyzeStudentData jsonParse outcome = Inl analysisFailure"
    by (auto simp: analyzeStudentData_def)
  have ne: "analysisFailure \<noteq> []"
    by (simp add: analysisFailure_def ascii_def)
  let ?app1 = "app\<lparr>studentInfo := Some i, appStep := ANALYZING, error := None\<rparr>"
  let ?app2 = "?app1\<lparr>error := Some analysisFailure, appStep := ERROR\<rparr>"
  have run: "handleOnboardingComplete jsonParse numberToString i outcome app =
       ([?app1, ?app2], [GenerateContent (analysisRequest numberToString i (location app))])"
    by (simp add: handleOnboardingComplete_def startAnalysis_def analysisSettled_def fail
        orElse_def ne)
  have "Txt analysisFailure \<in> set (leaves (renderApp ?app2))"
    by (rule leaves_error) simp_all
  moreover have "actions (renderApp ?app2) = [Reset, Reset]"
    by (rule actions_error) simp
  moreover have "reset ?app2 = initialApp"
    by (simp add: reset_def initialApp_def)
  ultimately show "\<exists>app1 app2.
      handleOnboardingComplete jsonParse numberToString i outcome app =
        ([app1, app2], [GenerateContent (analysisRequest numberToString i (location app))]) \<and>
      appStep app1 = ANALYZING \<and>
      appStep app2 = ERROR \<and> error app2 = Some analysisFailure \<and>
      Txt analysisFailure \<in> set (leaves (renderApp app2)) \<and>
      actions (renderApp app2) = [Reset, Reset] \<and>
      reset app2 = initialApp"
    using run by simp
next
  fix t v
  assume "outcome = Response (Some t) \<and> jsonParse (cleanResponseText t) = Some v"
  then have "analyzeStudentData jsonParse outcome = Inr v"
    by (auto simp: analyzeStudentData_def)
  then show "\<exists>app1 app2.
      handleOnboardingComplete jsonParse numberToString i outcome app =
        ([app1, app2], [GenerateContent (analysisRequest numberToString i (location app))]) \<and>
      appStep app1 = ANALYZING \<and>
      appStep app2 = REPORT \<and> analysisReport app2 = Some v \<and> error app2 = None"
    by (simp add: handleOnboardingComplete_def startAnalysis_def analysisSettled_def)
qed

text \<open>
  C5 at two responses during onboarding: one whose text is not JSON, and the text
  \<open>null\<close>, which parses.
\<close>

theorem C5_analysis_failure_witness:
  "(\<exists>app1 app2.
      handleOnboardingComplete parseJsonSimple integerToString exampleInfo
          (Response (Some (ascii ''Sorry''))) (initialApp\<lparr>appStep := ONBOARDING\<rparr>) =
        ([app1, app2], [GenerateContent (analysisRequest integerToString exampleInfo None)]) \<and>
      appStep app2 = ERROR \<and> error app2 = Some analysisFailure \<and>
      actions (renderApp app2) = [Reset, Reset]) \<and>
   (\<exists>app1 app2.
      handleOnboardingComplete parseJsonSimple integerToString exampleInfo
          (Response (Some (ascii ''null''))) (initialApp\<lparr>appStep := ONBOARDING\<rparr>) =
        ([app1, app2], [GenerateContent (analysisRequest integerToString exampleInfo None)]) \<and>
      appStep app2 = REPORT \<and> analysisReport app2 = Some JNull)"
proof -
  have clean: "cleanResponseText (ascii ''Sorry'') = ascii ''Sorry''"
      "cleanResponseText (ascii ''null'') = ascii ''null''"
    by (simp_all add: cleanResponseText_def stripLeadingFence_def stripTrailingFence_def
        jsonFenceOpen_def jsonFenceClose_def suffix_to_prefix trim_def isWhiteSpace_def ascii_def)
  have parse: "parseJsonSimple (ascii ''Sorry'') = None" "parseJsonSimple (ascii ''null'') = Some JNull"
    by (simp_all add: parseJsonSimple_def parseJsonLiteral_def ascii_def isJsonWhiteSpace_def)
  from clean parse have failing: "\<exists>t. Response (Some (ascii ''Sorry'')) = Response (Some t) \<and>
      parseJsonSimple (cleanResponseText t) = None"
    by simp
  from clean parse have parsing: "Response (Some (ascii ''null'')) = Response (Some (ascii ''null'')) \<and>
      parseJsonSimple (cleanResponseText (ascii ''null'')) = Some JNull"
    by simp
  have loc: "location (initialApp\<lparr>appStep := ONBOARDING\<rparr>) = None"
    by (simp add: initialApp_def)
  from C5_analysis_failure [of "Response (Some (ascii ''Sorry''))" parseJsonSimple
      integerToString exampleInfo "initialApp\<lparr>appStep := ONBOARDING\<rparr>"] failing
  have one: "\<exists>app1 app2.
      handleOnboardingComplete parseJsonSimple integerToString exampleInfo
          (Response (Some (ascii ''Sorry''))) (initialApp\<lparr>appStep := ONBOARDING\<rparr>) =
        ([app1, app2], [GenerateContent (analysisRequest integerToString exampleInfo None)]) \<and>
      appStep app2 = ERROR \<and> error app2 = Some analysisFailure \<and>
      actions (renderApp app2) = [Reset, Reset]"
    unfolding loc by blast
  from C5_analysis_failure [of "Response (Some (ascii ''null''))" parseJsonSimple
      integerToString exampleInfo "initialApp\<lparr>appStep := ONBOARDING\<rparr>"] parsing
  have two: "\<exists>app1 app2.
      handleOnboardingComplete parseJsonSimple integerToString exampleInfo
          (Response (Some (ascii ''null''))) (initialApp\<lparr>appStep := ONBOARDING\<rparr>) =
        ([app1, app2], [GenerateContent (analysisRequest integerToString exampleInfo None)]) \<and>
      appStep app2 = REPORT \<and> analysisReport app2 = Some JNull"
    unfolding loc by blast
  from one two show ?thesis ..
qed

section \<open>Uploading an image\<close>

text \<open>
  C6: when a file is chosen and read, \<open>handleFileChange\<close> passes through two states
  that are busy (the spinner is shown) and ends in a state that is not. When the
  extraction succeeds, the end state is in the manual sub-state, its manual record is
  the extracted one, and the form shows the text areas filled with it. When the
  extraction fails, the end state is in the image sub-state, the upload control is
  shown again, and the message of the failure is alerted.
\<close>

theorem C6_image_upload:
  "\<exists>s1 s2 s3 fx.
     handleFileChange jsonParse (Some url) (Some imagePayload) outcome s = ([s1, s2, s3], fx) \<and>
     isExtracting s1 \<and> renderRecordStep s1 = ExtractingSpinner \<and>
     isExtracting s2 \<and> renderRecordStep s2 = ExtractingSpinner \<and>
     \<not> isExtracting s3 \<and>
     (case extractDataFromImage jsonParse outcome of
        Inr (name, manualRecord) \<Rightarrow>
          recordInputType s3 = Some InputManual \<and>
          manualAcademicRecord (info s3) = Some manualRecord \<and>
          renderRecordStep s3 = ManualForm manualRecord \<and>
          fx = [GenerateContent (extractionRequest imagePayload)]
      | Inl message \<Rightarrow>
          recordInputType s3 = Some InputImage \<and>
          renderRecordStep s3 = ImageUpload (Some url) \<and>
          fx = [GenerateContent (extractionRequest imagePayload), Alert message])"
proof -
  let ?s1 = "fileChosen url s"
  let ?s2 = "fst (fileRead imagePayload ?s1)"
  let ?r = "extractionSettled (extractDataFromImage jsonParse outcome) ?s2"
  have run: "handleFileChange jsonParse (Some url) (Some imagePayload) outcome s =
      ([?s1, ?s2, fst ?r], GenerateContent (extractionRequest imagePayload) # snd ?r)"
    by (simp add: handleFileChange_def fileRead_def Let_def split: prod.splits)
  have busy: "isExtracting ?s1" "renderRecordStep ?s1 = ExtractingSpinner"
    "isExtracting ?s2" "renderRecordStep ?s2 = ExtractingSpinner"
    by (simp_all add: fileChosen_def fileRead_def renderRecordStep_def)
  have cleared: "\<not> isExtracting (fst ?r)"
    by (simp add: extractionSettled_def split: sum.splits prod.splits)
  have settled: "case extractDataFromImage jsonParse outcome of
        Inr (name, manualRecord) \<Rightarrow>
          recordInputType (fst ?r) = Some InputManual \<and>
          manualAcademicRecord (info (fst ?r)) = Some manualRecord \<and>
          renderRecordStep (fst ?r) = ManualForm manualRecord \<and>
          GenerateContent (extractionRequest imagePayload) # snd ?r =
            [GenerateContent (extractionRequest imagePayload)]
      | Inl message \<Rightarrow>
          recordInputType (fst ?r) = Some InputImage \<and>
          renderRecordStep (fst ?r) = ImageUpload (Some url) \<and>
          GenerateContent (extractionRequest imagePayload) # snd ?r =
            [GenerateContent (extractionRequest imagePayload), Alert message]"
    by (simp add: extractionSettled_def fileChosen_def fileRead_def renderRecordStep_def
        split: sum.splits prod.splits)
  from run busy cleared settled show ?thesis
    by blast
qed

text \<open>
  C6 at two runs from the initial form: one whose response parses to a name and the
  example record, and one whose model call throws.
\<close>

theorem C6_image_upload_witness:
  "(\<exists>s1 s2 s3.
      handleFileChange (\<lambda>s. Some (ascii ''Kim'', exampleRecord)) (Some (ascii ''blob:1''))
          (Some exampleImage) (Response (Some (ascii ''{}''))) initialOnboarding =
        ([s1, s2, s3], [GenerateContent (extractionRequest exampleImage)]) \<and>
      isExtracting s1 \<and> \<not> isExtracting s3 \<and> renderRecordStep s3 = ManualForm exampleRecord) \<and>
   (\<exists>s1 s2 s3.
      handleFileChange (\<lambda>s. None) (Some (ascii ''blob:1'')) (Some exampleImage) CallFailed
          initialOnboarding =
        ([s1, s2, s3], [GenerateContent (extractionRequest exampleImage), Alert extractionFailure]) \<and>
      isExtracting s1 \<and> \<not> isExtracting s3 \<and>
      renderRecordStep s3 = ImageUpload (Some (ascii ''blob:1'')))"
proof -
  have ok: "extractDataFromImage (\<lambda>s. Some (ascii ''Kim'', exampleRecord))
      (Response (Some (ascii ''{}''))) = Inr (ascii ''Kim'', exampleRecord)"
    by (simp add: extractDataFromImage_def)
  have failed: "extractDataFromImage (\<lambda>s. None) CallFailed = Inl extractionFailure"
    by (simp add: extractDataFromImage_def)
  from C6_image_upload [of "\<lambda>s. Some (ascii ''Kim'', exampleRecord)" "ascii ''blob:1''"
      exampleImage "Response (Some (ascii ''{}''))" initialOnboarding]
  have one: "\<exists>s1 s2 s3.
      handleFileChange (\<lambda>s. Some (ascii ''Kim'', exampleRecord)) (Some (ascii ''blob:1''))
          (Some exampleImage) (Response (Some (ascii ''{}''))) initialOnboarding =
        ([s1, s2, s3], [GenerateContent (extractionRequest exampleImage)]) \<and>
      isExtracting s1 \<and> \<not> isExtracting s3 \<and> renderRecordStep s3 = ManualForm exampleRecord"
    unfolding ok by auto
  from C6_image_upload [of "\<lambda>s. None" "ascii ''blob:1''" exampleImage CallFailed
      initialOnboarding]
  have two: "\<exists>s1 s2 s3.
      handleFileChange (\<lambda>s. None) (Some (ascii ''blob:1'')) (Some exampleImage) CallFailed
          initialOnboarding =
        ([s1, s2, s3], [GenerateContent (extractionRequest exampleImage), Alert extractionFailure]) \<and>
      isExtracting s1 \<and> \<not> isExtracting s3 \<and>
      renderRecordStep s3 = ImageUpload (Some (ascii ''blob:1''))"
    unfolding failed by auto
  from one two show ?thesis ..
qed

section \<open>Geolocation\<close>

text \<open>
  C8: when the browser has no geolocation, \<open>handleLocationRequest\<close> alerts that the
  browser does not support it, and when the browser reports an error, it alerts that
  getting the location failed; in both cases nothing in the state changes. When no
  location was stored, none is stored afterwards, the analysis started from that state
  sends the request built without a location, and a report that arrives leads to the
  report state. When the browser reports a position, its latitude and longitude are
  stored as the location and the success is alerted.
\<close>

theorem C8_geolocation:
  "(geolocation = Unsupported \<or> geolocation = PositionError \<longrightarrow>
      handleLocationRequest geolocation app =
        (app, [Alert (if geolocation = Unsupported then koLocationUnsupported
                      else koLocationFailed)]) \<and>
      (location app = None \<longrightarrow>
         location (fst (handleLocationRequest geolocation app)) = None \<and>
         (\<exists>app1. startAnalysis numberToString i (fst (handleLocationRequest geolocation app)) =
            (app1, [GenerateContent (analysisRequest numberToString i None)]) \<and>
            appStep app1 = ANALYZING \<and>
            (\<forall>report. appStep (fst (analysisSettled (Inr report) app1)) = REPORT)))) \<and>
   handleLocationRequest (Position lat lon) app =
      (app\<lparr>location := Some \<lparr>latitude = lat, longitude = lon\<rparr>\<rparr>, [Alert koLocationCollected])"
  by (auto simp: handleLocationRequest_def startAnalysis_def analysisSettled_def)

text \<open>
  C8 at the error callback, at a browser without geolocation, and at the position
  (37, 127), during onboarding.
\<close>

theorem C8_geolocation_witness:
  "handleLocationRequest PositionError (initialApp\<lparr>appStep := ONBOARDING\<rparr>) =
      (initialApp\<lparr>appStep := ONBOARDING\<rparr>, [Alert koLocationFailed]) \<and>
   handleLocationRequest Unsupported (initialApp\<lparr>appStep := ONBOARDING\<rparr>) =
      (initialApp\<lparr>appStep := ONBOARDING\<rparr>, [Alert koLocationUnsupported]) \<and>
   (\<exists>app1. startAnalysis integerToString exampleInfo
        (fst (handleLocationRequest PositionError (initialApp\<lparr>appStep := ONBOARDING\<rparr>))) =
      (app1, [GenerateContent (analysisRequest integerToString exampleInfo None)]) \<and>
      appStep app1 = ANALYZING) \<and>
   handleLocationRequest (Position 37 127) (initialApp\<lparr>appStep := ONBOARDING\<rparr>) =
      (initialApp\<lparr>appStep := ONBOARDING, location := Some \<lparr>latitude = 37, longitude = 127\<rparr>\<rparr>,
       [Alert koLocationCollected])"
proof -
  have none: "location (initialApp\<lparr>appStep := ONBOARDING\<rparr>) = None"
    by (simp add: initialApp_def)
  from C8_geolocation [of PositionError "initialApp\<lparr>appStep := ONBOARDING\<rparr>" integerToString
      exampleInfo 37 127]
    C8_geolocation [of Unsupported "initialApp\<lparr>appStep := ONBOARDING\<rparr>" integerToString
      exampleInfo 37 127] none
  show ?thesis
    by auto
qed

section \<open>The report view\<close>

lemma map_zip_fst:
  "length xs = length ys \<Longrightarrow> map (\<lambda>(x, i). f x) (zip xs ys) = map f xs"
  by (induction xs ys rule: list_induct2) simp_all

lemma map_indexed:
  "map (\<lambda>(x, i). f x) (zip xs [0..<length xs]) = map f xs"
  by (rule map_zip_fst) simp

lemma leaves_card:
  "leaves (renderRecommendationCard rec index) =
     [Txt (category rec), Txt (university rec), Txt (ascii '' - ''), Txt (major rec),
      Txt (admissionType rec), Num (acceptanceChance rec), Txt (ascii ''%''),
      Txt koExpectedAcceptanceRate, Txt (rationale rec)]"
  by (simp add: renderRecommendationCard_def)

lemma leaves_cards:
  "concat (map leaves (map (\<lambda>(rec, index). renderRecommendationCard rec index)
      (zip recs [0..<length recs]))) =
   concat (map (\<lambda>rec.
     [Txt (category rec), Txt (university rec), Txt (ascii '' - ''), Txt (major rec),
      Txt (admissionType rec), Num (acceptanceChance rec), Txt (ascii ''%''),
      Txt koExpectedAcceptanceRate, Txt (rationale rec)]) recs)"
proof -
  have "map leaves (map (\<lambda>(rec, index). renderRecommendationCard rec index)
      (zip recs [0..<length recs])) =
    map (\<lambda>(rec, index). leaves (renderRecommendationCard rec index)) (zip recs [0..<length recs])"
    by (simp add: case_prod_unfold)
  then show ?thesis
    by (simp only: leaves_card map_indexed)
qed

lemma leaves_toFixed1: "leaves (toFixed1 x) = [toFixed1 x]"
  by (simp add: toFixed1_def Let_def)

lemma leaves_stars: "concat (map leaves (stars x)) = []"
  by (simp add: stars_def)

lemma leaves_academy:
  "leaves (renderAcademy item) =
     [Txt (academyName item), Txt (academyDistance item), Txt (ascii ''(''),
      toFixed1 (academyRating item), Txt koReviews, Num (reviewCount item), Txt (ascii '')'')]"
  by (simp add: renderAcademy_def leaves_toFixed1 leaves_stars)

lemma leaves_studySpace:
  "leaves (renderStudySpace item) =
     [Txt (spaceName item), Txt (spaceDistance item),
      Txt (if spaceType item = ascii ''Library'' then koLibrary else koStudyCafe),
      Txt (ascii ''(''), toFixed1 (spaceRating item), Txt (ascii '')'')]"
  by (simp add: renderStudySpace_def leaves_toFixed1 leaves_stars)

lemma gpaZScore_unused:
  "ReportDashboard activeTab
     (report\<lparr>quantitativeAnalysis := (quantitativeAnalysis report)\<lparr>gpaZScore := z\<rparr>\<rparr>) =
   ReportDashboard activeTab report"
  by (simp add: ReportDashboard_def renderDashboard_def renderStrategy_def renderLocalSupport_def
      pieData_def)

text \<open>
  C2, as stated: the view reproduces every field of the response. The view never reads
  \<open>gpaZScore\<close>: the example report and the same report with no z-scores are two
  reports, and the view of one is the view of the other on each of the three tabs.
\<close>

theorem C2_every_field_counterexample:
  "exampleReport\<lparr>quantitativeAnalysis := (quantitativeAnalysis exampleReport)\<lparr>gpaZScore := []\<rparr>\<rparr>
     \<noteq> exampleReport \<and>
   ReportDashboard DashboardTab
     (exampleReport\<lparr>quantitativeAnalysis := (quantitativeAnalysis exampleReport)\<lparr>gpaZScore := []\<rparr>\<rparr>)
     = ReportDashboard DashboardTab exampleReport \<and>
   ReportDashboard StrategyTab
     (exampleReport\<lparr>quantitativeAnalysis := (quantitativeAnalysis exampleReport)\<lparr>gpaZScore := []\<rparr>\<rparr>)
     = ReportDashboard StrategyTab exampleReport \<and>
   ReportDashboard LocalTab
     (exampleReport\<lparr>quantitativeAnalysis := (quantitativeAnalysis exampleReport)\<lparr>gpaZScore := []\<rparr>\<rparr>)
     = ReportDashboard LocalTab exampleReport"
proof -
  have "gpaZScore (quantitativeAnalysis
      (exampleReport\<lparr>quantitativeAnalysis := (quantitativeAnalysis exampleReport)\<lparr>gpaZScore := []\<rparr>\<rparr>))
    \<noteq> gpaZScore (quantitativeAnalysis exampleReport)"
    by (simp add: exampleReport_def)
  then have "exampleReport\<lparr>quantitativeAnalysis := (quantitativeAnalysis exampleReport)\<lparr>gpaZScore := []\<rparr>\<rparr>
     \<noteq> exampleReport"
    by metis
  then show ?thesis
    by (simp only: gpaZScore_unused simp_thms)
qed

text \<open>
  C2, amended: the view reproduces the fields it shows. The texts of the strategy
  list are, after each of the two headings, those of the cards of the early and of the
  regular recommendations in the order of the lists, and a card shows the category,
  the university, the major, the admission type, the acceptance chance and the
  rationale of its item as they are in the report. The strategy tab shows the tab
  labels and this list. The dashboard shows the student name and the recommended
  application type (a placeholder for an empty one), the two probabilities as the data
  of the pie chart, the grade trend and the competencies as the data of their charts,
  and the text of each keyword in a span styled by its value. The local-support view shows the student name, the weakest
  subject, and of each academy and study space the name and the distance (of an
  academy the review count too) as they are in the report, the rating with one decimal,
  and the type of a study space as one of two labels.
\<close>

theorem C2_rendered_fields:
  "leaves (renderStrategy report) =
     [Txt koEarlyCards] @
     concat (map (\<lambda>rec.
       [Txt (category rec), Txt (university rec), Txt (ascii '' - ''), Txt (major rec),
        Txt (admissionType rec), Num (acceptanceChance rec), Txt (ascii ''%''),
        Txt koExpectedAcceptanceRate, Txt (rationale rec)])
       (earlyDecisionRecommendations report)) @
     [Txt koRegularCards] @
     concat (map (\<lambda>rec.
       [Txt (category rec), Txt (university rec), Txt (ascii '' - ''), Txt (major rec),
        Txt (admissionType rec), Num (acceptanceChance rec), Txt (ascii ''%''),
        Txt koExpectedAcceptanceRate, Txt (rationale rec)])
       (regularDecisionRecommendations report)) \<and>
   leaves (ReportDashboard StrategyTab report) =
     map (\<lambda>tab. Txt (snd tab)) tabs @ leaves (renderStrategy report) \<and>
   leaves (renderLocalSupport report) =
     [Txt koLocalSupportTitle, Txt koAccordingToAnalysis, Txt (reportStudentName report), Txt koStudentTopic,
      Txt (weakSubject (localSupport report)), Txt koNeedsWork,
      Txt koAcademiesHeading] @
     concat (map (\<lambda>item.
       [Txt (academyName item), Txt (academyDistance item), Txt (ascii ''(''),
        toFixed1 (academyRating item), Txt koReviews, Num (reviewCount item), Txt (ascii '')'')])
       (recommendedAcademies (localSupport report))) @
     [Txt koStudySpacesHeading] @
     concat (map (\<lambda>item.
       [Txt (spaceName item), Txt (spaceDistance item),
        Txt (if spaceType item = ascii ''Library'' then koLibrary else koStudyCafe),
        Txt (ascii ''(''), toFixed1 (spaceRating item), Txt (ascii '')'')])
       (recommendedStudySpaces (localSupport report))) \<and>
   leaves (renderDashboard report) =
     [Txt koDiagnosisSummary, Txt (orElse (reportStudentName report) koStudent), Txt (ascii '', ''),
      Txt (orElse (recommendedApplicationType report) koAnalysisResult), Txt koIsFavourable,
      Txt koEarlyVsRegular, Txt koGradeTrend, Txt koCompetencies, Txt koKeywordCloud] \<and>
   widgets (renderDashboard report) =
     [PieChart
        [(koEarly, earlyDecisionProbability (applicationStrategy report)),
         (koRegular, regularDecisionProbability (applicationStrategy report))],
      LineChart (gradeTrend (quantitativeAnalysis report)),
      RadarChart (competencyRadar (qualitativeAnalysis report))
        (orElse (reportStudentName report) koStudent)] @
     map (\<lambda>word. KeywordSpan (keywordValue word) (keywordText word))
       (keywordCloud (qualitativeAnalysis report))"
proof (intro conjI)
  show "leaves (renderStrategy report) =
     [Txt koEarlyCards] @
     concat (map (\<lambda>rec.
       [Txt (category rec), Txt (university rec), Txt (ascii '' - ''), Txt (major rec),
        Txt (admissionType rec), Num (acceptanceChance rec), Txt (ascii ''%''),
        Txt koExpectedAcceptanceRate, Txt (rationale rec)])
       (earlyDecisionRecommendations report)) @
     [Txt koRegularCards] @
     concat (map (\<lambda>rec.
       [Txt (category rec), Txt (university rec), Txt (ascii '' - ''), Txt (major rec),
        Txt (admissionType rec), Num (acceptanceChance rec), Txt (ascii ''%''),
        Txt koExpectedAcceptanceRate, Txt (rationale rec)])
       (regularDecisionRecommendations report))"
    unfolding renderStrategy_def
    by (simp only: leaves.simps list.map concat.simps append_Nil2 leaves_cards append.simps)
next
  show "leaves (ReportDashboard StrategyTab report) =
     map (\<lambda>tab. Txt (snd tab)) tabs @ leaves (renderStrategy report)"
    by (simp add: ReportDashboard_def tabs_def tabButton_def)
next
  have academies: "map leaves (map renderAcademy xs) = map (\<lambda>item.
       [Txt (academyName item), Txt (academyDistance item), Txt (ascii ''(''),
        toFixed1 (academyRating item), Txt koReviews, Num (reviewCount item), Txt (ascii '')'')]) xs"
    for xs
    by (simp add: leaves_academy)
  have spaces: "map leaves (map renderStudySpace xs) = map (\<lambda>item.
       [Txt (spaceName item), Txt (spaceDistance item),
        Txt (if spaceType item = ascii ''Library'' then koLibrary else koStudyCafe),
        Txt (ascii ''(''), toFixed1 (spaceRating item), Txt (ascii '')'')]) xs"
    for xs
    by (simp add: leaves_studySpace)
  show "leaves (renderLocalSupport report) =
     [Txt koLocalSupportTitle, Txt koAccordingToAnalysis, Txt (reportStudentName report), Txt koStudentTopic,
      Txt (weakSubject (localSupport report)), Txt koNeedsWork,
      Txt koAcademiesHeading] @
     concat (map (\<lambda>item.
       [Txt (academyName item), Txt (academyDistance item), Txt (ascii ''(''),
        toFixed1 (academyRating item), Txt koReviews, Num (reviewCount item), Txt (ascii '')'')])
       (recommendedAcademies (localSupport report))) @
     [Txt koStudySpacesHeading] @
     concat (map (\<lambda>item.
       [Txt (spaceName item), Txt (spaceDistance item),
        Txt (if spaceType item = ascii ''Library'' then koLibrary else koStudyCafe),
        Txt (ascii ''(''), toFixed1 (spaceRating item), Txt (ascii '')'')])
       (recommendedStudySpaces (localSupport report)))"
    unfolding renderLocalSupport_def
    by (simp only: leaves.simps list.map concat.simps append_Nil2 academies spaces append.simps)
next
  show "leaves (renderDashboard report) =
     [Txt koDiagnosisSummary, Txt (orElse (reportStudentName report) koStudent), Txt (ascii '', ''),
      Txt (orElse (recommendedApplicationType report) koAnalysisResult), Txt koIsFavourable,
      Txt koEarlyVsRegular, Txt koGradeTrend, Txt koCompetencies, Txt koKeywordCloud]"
    by (simp add: renderDashboard_def)
next
  show "widgets (renderDashboard report) =
     [PieChart
        [(koEarly, earlyDecisionProbability (applicationStrategy report)),
         (koRegular, regularDecisionProbability (applicationStrategy report))],
      LineChart (gradeTrend (quantitativeAnalysis report)),
      RadarChart (competencyRadar (qualitativeAnalysis report))
        (orElse (reportStudentName report) koStudent)] @
     map (\<lambda>word. KeywordSpan (keywordValue word) (keywordText word))
       (keywordCloud (qualitativeAnalysis report))"
    by (simp add: renderDashboard_def pieData_def comp_def)
qed

text \<open>C2 at the example report: the texts of its strategy list.\<close>

theorem C2_rendered_fields_witness:
  "leaves (renderStrategy exampleReport) =
     [Txt koEarlyCards,
      Txt koMatch, Txt (ascii ''KAIST''), Txt (ascii '' - ''), Txt (ascii ''CS''),
      Txt (ascii ''General''), Num 55, Txt (ascii ''%''), Txt koExpectedAcceptanceRate,
      Txt (ascii ''Strong record''),
      Txt koRegularCards]"
  using C2_rendered_fields [of exampleReport]
  by (simp add: exampleReport_def exampleRecommendation_def)

end
